theory Spec2Isabelle
  imports Main "HOL-Library.Word" "HOL-Library.Char_ord" "HOL-Library.List_Lexorder"
begin

section \<open>Value objects (shared/domain/valueobjects)\<close>

text \<open>
  Go's \<open>int64\<close> is a 64-bit word whose arithmetic wraps; Go's \<open>int\<close> is taken at its
  64-bit width (the services are built for 64-bit targets), so \<open>int64(item.Quantity)\<close>
  is the identity. \<open>time.Time\<close> values are natural-number clock readings, and an
  \<open>error\<close> is its message (\<open>nil\<close> is \<open>None\<close>); \<open>fmt.Errorf("ctx: %w", err)\<close> prefixes
  the message.
\<close>

type_synonym int64 = "64 word"
type_synonym Time = nat
type_synonym error = string

record Money =
  Amount :: int64
  Currency :: string

record Address =
  Street :: string
  City :: string
  State :: string
  Zip :: string
  Country :: string

definition Money_zero :: Money where
  "Money_zero = \<lparr>Amount = 0, Currency = ''''\<rparr>"

text \<open>money.go, \<open>Money.Add\<close>: the one place of the repository that compares currencies.\<close>

definition Money_Add :: "Money \<Rightarrow> Money \<Rightarrow> error option \<times> Money" where
  "Money_Add m other =
     (if Currency m \<noteq> Currency other then (Some ''cannot add different currencies'', Money_zero)
      else (None, \<lparr>Amount = Amount m + Amount other, Currency = Currency m\<rparr>))"

text \<open>order_status.go: \<open>OrderStatus\<close> is a string type with five named constants.\<close>

type_synonym OrderStatus = string

definition OrderStatusDraft :: OrderStatus where "OrderStatusDraft = ''draft''"
definition OrderStatusConfirmed :: OrderStatus where "OrderStatusConfirmed = ''confirmed''"
definition OrderStatusShipped :: OrderStatus where "OrderStatusShipped = ''shipped''"
definition OrderStatusDelivered :: OrderStatus where "OrderStatusDelivered = ''delivered''"
definition OrderStatusCancelled :: OrderStatus where "OrderStatusCancelled = ''cancelled''"

definition IsValid :: "OrderStatus \<Rightarrow> bool" where
  "IsValid s \<longleftrightarrow>
     s = OrderStatusDraft \<or> s = OrderStatusConfirmed \<or> s = OrderStatusShipped \<or>
     s = OrderStatusDelivered \<or> s = OrderStatusCancelled"

definition CanTransitionTo :: "OrderStatus \<Rightarrow> OrderStatus \<Rightarrow> bool" where
  "CanTransitionTo s newStatus =
     (if s = OrderStatusDraft then
        newStatus = OrderStatusConfirmed \<or> newStatus = OrderStatusCancelled
      else if s = OrderStatusConfirmed then
        newStatus = OrderStatusShipped \<or> newStatus = OrderStatusCancelled
      else if s = OrderStatusShipped then
        newStatus = OrderStatusDelivered
      else if s = OrderStatusDelivered \<or> s = OrderStatusCancelled then False
      else False)"

section \<open>The Order aggregate (shared/domain/entities)\<close>

record OrderItem =
  ProductID :: string
  Quantity :: int64
  Price :: Money

record Order =
  ID :: string
  CustomerID :: string
  Items :: "OrderItem list"
  Status :: OrderStatus
  TotalAmount :: Money
  ShippingAddress :: Address
  CreatedAt :: Time
  UpdatedAt :: Time

text \<open>
  \<open>NewOrder\<close>: the fresh UUID and the two clock readings are inputs of the model.
\<close>

definition NewOrder :: "string \<Rightarrow> Time \<Rightarrow> Time \<Rightarrow> string \<Rightarrow> Address \<Rightarrow> Order" where
  "NewOrder uuid t1 t2 customerID shippingAddress =
     \<lparr>ID = uuid, CustomerID = customerID, Items = [], Status = OrderStatusDraft,
      TotalAmount = Money_zero, ShippingAddress = shippingAddress,
      CreatedAt = t1, UpdatedAt = t2\<rparr>"

text \<open>
  \<open>recalculateTotal\<close>: the loop over the items with its running total \<open>tot\<close>, then the
  assignment of a Money whose currency is the literal "USD".
\<close>

fun recalc_loop :: "int64 \<Rightarrow> OrderItem list \<Rightarrow> int64" where
  "recalc_loop tot [] = tot"
| "recalc_loop tot (item # rest) =
     recalc_loop (tot + Amount (Price item) * Quantity item) rest"

definition recalculateTotal :: "Order \<Rightarrow> Order" where
  "recalculateTotal ord =
     ord\<lparr>TotalAmount := \<lparr>Amount = recalc_loop 0 (Items ord), Currency = ''USD''\<rparr>\<rparr>"

text \<open>
  The methods have a pointer receiver: each returns the error (or \<open>None\<close>) together
  with the order as the call leaves it.
\<close>

definition AddItem :: "Time \<Rightarrow> string \<Rightarrow> int64 \<Rightarrow> Money \<Rightarrow> Order \<Rightarrow> error option \<times> Order" where
  "AddItem now productID quantity price ord =
     (if Status ord \<noteq> OrderStatusDraft then
        (Some ''cannot modify order that is not in draft status'', ord)
      else if sint quantity \<le> 0 then
        (Some ''quantity must be greater than zero'', ord)
      else
        (None,
         (recalculateTotal
            (ord\<lparr>Items := Items ord @ [\<lparr>ProductID = productID, Quantity = quantity, Price = price\<rparr>]\<rparr>))
         \<lparr>UpdatedAt := now\<rparr>))"

text \<open>
  The search loop of \<open>RemoveItem\<close> (the projection handler has the same loop over
  its own item type, so the field read is an argument): the index of the first item
  whose product matches, or \<open>None\<close> when the loop ends without a match; and the
  slice expression \<open>append(items[:i], items[i+1:]...)\<close>.
\<close>

fun first_index :: "('a \<Rightarrow> string) \<Rightarrow> string \<Rightarrow> 'a list \<Rightarrow> nat option" where
  "first_index product productID [] = None"
| "first_index product productID (item # rest) =
     (if product item = productID then Some 0
      else map_option Suc (first_index product productID rest))"

definition cut_at :: "nat \<Rightarrow> 'a list \<Rightarrow> 'a list" where
  "cut_at i xs = take i xs @ drop (i + 1) xs"

definition RemoveItem :: "Time \<Rightarrow> string \<Rightarrow> Order \<Rightarrow> error option \<times> Order" where
  "RemoveItem now productID ord =
     (if Status ord \<noteq> OrderStatusDraft then
        (Some ''cannot modify order that is not in draft status'', ord)
      else case first_index ProductID productID (Items ord) of
        Some i \<Rightarrow>
          (None, (recalculateTotal (ord\<lparr>Items := cut_at i (Items ord)\<rparr>))\<lparr>UpdatedAt := now\<rparr>)
      | None \<Rightarrow> (Some ''item not found'', ord))"

definition Confirm :: "Time \<Rightarrow> Order \<Rightarrow> error option \<times> Order" where
  "Confirm now ord =
     (if Status ord \<noteq> OrderStatusDraft then (Some ''can only confirm draft orders'', ord)
      else if length (Items ord) = 0 then (Some ''cannot confirm order without items'', ord)
      else (None, ord\<lparr>Status := OrderStatusConfirmed, UpdatedAt := now\<rparr>))"

definition Cancel :: "Time \<Rightarrow> Order \<Rightarrow> error option \<times> Order" where
  "Cancel now ord =
     (if Status ord = OrderStatusShipped \<or> Status ord = OrderStatusDelivered then
        (Some ''cannot cancel shipped or delivered orders'', ord)
      else (None, ord\<lparr>Status := OrderStatusCancelled, UpdatedAt := now\<rparr>))"

definition Ship :: "Time \<Rightarrow> Order \<Rightarrow> error option \<times> Order" where
  "Ship now ord =
     (if Status ord \<noteq> OrderStatusConfirmed then (Some ''can only ship confirmed orders'', ord)
      else (None, ord\<lparr>Status := OrderStatusShipped, UpdatedAt := now\<rparr>))"

definition Deliver :: "Time \<Rightarrow> Order \<Rightarrow> error option \<times> Order" where
  "Deliver now ord =
     (if Status ord \<noteq> OrderStatusShipped then (Some ''can only deliver shipped orders'', ord)
      else (None, ord\<lparr>Status := OrderStatusDelivered, UpdatedAt := now\<rparr>))"

text \<open>The sum the specification writes: item price amount times item quantity, over the items.\<close>

definition items_total :: "OrderItem list \<Rightarrow> int64" where
  "items_total items = sum_list (map (\<lambda>item. Amount (Price item) * Quantity item) items)"

section \<open>Domain events (shared/domain/events)\<close>

text \<open>
  \<open>DomainEvent\<close> is an interface; its implementations are the seven order events and
  \<open>BaseDomainEvent\<close> itself, which has the three methods and is embedded in the others.
  A type switch on an event is a case distinction on the constructor.
\<close>

record BaseDomainEvent =
  EventType :: string
  AggregateIDValue :: string
  OccurredAtTime :: Time

record OrderItemData =
  data_ProductID :: string
  data_Quantity :: int64
  data_Price :: Money

datatype DomainEvent =
    OrderCreatedEvent BaseDomainEvent string "OrderItemData list" Money Address
  | OrderConfirmedEvent BaseDomainEvent string
  | OrderShippedEvent BaseDomainEvent string
  | OrderDeliveredEvent BaseDomainEvent string
  | OrderCancelledEvent BaseDomainEvent string string
  | OrderItemAddedEvent BaseDomainEvent string int64 Money
  | OrderItemRemovedEvent BaseDomainEvent string
  | BaseEvent BaseDomainEvent

fun base :: "DomainEvent \<Rightarrow> BaseDomainEvent" where
  "base (OrderCreatedEvent b customerID items totalAmount shippingAddress) = b"
| "base (OrderConfirmedEvent b customerID) = b"
| "base (OrderShippedEvent b customerID) = b"
| "base (OrderDeliveredEvent b customerID) = b"
| "base (OrderCancelledEvent b customerID reason) = b"
| "base (OrderItemAddedEvent b productID quantity price) = b"
| "base (OrderItemRemovedEvent b productID) = b"
| "base (BaseEvent b) = b"

definition Type :: "DomainEvent \<Rightarrow> string" where
  "Type e = EventType (base e)"

definition AggregateID :: "DomainEvent \<Rightarrow> string" where
  "AggregateID e = AggregateIDValue (base e)"

definition OccurredAt :: "DomainEvent \<Rightarrow> Time" where
  "OccurredAt e = OccurredAtTime (base e)"

definition NewOrderCreatedEvent :: "Time \<Rightarrow> Order \<Rightarrow> DomainEvent" where
  "NewOrderCreatedEvent now ord =
     OrderCreatedEvent
       \<lparr>EventType = ''OrderCreated'', AggregateIDValue = ID ord, OccurredAtTime = now\<rparr>
       (CustomerID ord)
       (map (\<lambda>item. \<lparr>data_ProductID = ProductID item, data_Quantity = Quantity item,
                      data_Price = Price item\<rparr>) (Items ord))
       (TotalAmount ord)
       (ShippingAddress ord)"

definition NewOrderConfirmedEvent :: "Time \<Rightarrow> Order \<Rightarrow> DomainEvent" where
  "NewOrderConfirmedEvent now ord =
     OrderConfirmedEvent
       \<lparr>EventType = ''OrderConfirmed'', AggregateIDValue = ID ord, OccurredAtTime = now\<rparr>
       (CustomerID ord)"

definition NewOrderCancelledEvent :: "Time \<Rightarrow> Order \<Rightarrow> string \<Rightarrow> DomainEvent" where
  "NewOrderCancelledEvent now ord reason =
     OrderCancelledEvent
       \<lparr>EventType = ''OrderCancelled'', AggregateIDValue = ID ord, OccurredAtTime = now\<rparr>
       (CustomerID ord) reason"

definition NewOrderItemAddedEvent ::
  "Time \<Rightarrow> Order \<Rightarrow> string \<Rightarrow> int64 \<Rightarrow> Money \<Rightarrow> DomainEvent" where
  "NewOrderItemAddedEvent now ord productID quantity price =
     OrderItemAddedEvent
       \<lparr>EventType = ''OrderItemAdded'', AggregateIDValue = ID ord, OccurredAtTime = now\<rparr>
       productID quantity price"

definition NewOrderItemRemovedEvent :: "Time \<Rightarrow> Order \<Rightarrow> string \<Rightarrow> DomainEvent" where
  "NewOrderItemRemovedEvent now ord productID =
     OrderItemRemovedEvent
       \<lparr>EventType = ''OrderItemRemoved'', AggregateIDValue = ID ord, OccurredAtTime = now\<rparr>
       productID"

section \<open>Read model (order-reporting-service/internal/readmodels)\<close>

text \<open>
  A JSON document is modelled by the value it encodes: the JSONB columns and the Redis
  values hold what \<open>json.Marshal\<close> wrote, and decoding gives that value back. This
  takes the strings of a value to be valid UTF-8, which \<open>json.Marshal\<close> writes as they
  are.
  The table \<open>order_read_models\<close> is a map from its primary key to the other columns;
  Redis is a map from keys to cached orders. Each access to PostgreSQL or Redis may
  fail: \<open>io\<close> gives the driver's error for a statement, or \<open>None\<close>.
\<close>

record OrderItemDTO =
  dto_ProductID :: string
  dto_Quantity :: int64
  dto_Price :: Money

record OrderDTO =
  dto_ID :: string
  dto_CustomerID :: string
  dto_Status :: string
  dto_TotalAmount :: Money
  dto_ShippingAddress :: Address
  dto_Items :: "OrderItemDTO list"
  dto_CreatedAt :: Time
  dto_UpdatedAt :: Time

record ReadRow =
  row_customer_id :: string
  row_status :: string
  row_total_amount :: int64
  row_shipping_address :: Address
  row_items :: "OrderItemDTO list"
  row_created_at :: Time
  row_updated_at :: Time

record ReadStore =
  order_read_models :: "string \<rightharpoonup> ReadRow"
  redis :: "string \<rightharpoonup> OrderDTO"

datatype ReadStmt = RedisGet | RedisSet | SelectReadModel | UpsertReadModel

type_synonym ReadIO = "ReadStmt \<Rightarrow> error option"

definition redis_Set :: "ReadIO \<Rightarrow> string \<Rightarrow> OrderDTO \<Rightarrow> ReadStore \<Rightarrow> ReadStore" where
  "redis_Set io k v s = (if io RedisSet = None then s\<lparr>redis := (redis s)(k \<mapsto> v)\<rparr> else s)"

definition GetOrder :: "ReadIO \<Rightarrow> string \<Rightarrow> ReadStore \<Rightarrow> (error + OrderDTO) \<times> ReadStore" where
  "GetOrder io orderID s =
     (let cacheKey = ''order:'' @ orderID in
      case (if io RedisGet = None then redis s cacheKey else None) of
        Some cached \<Rightarrow> (Inr cached, s)
      | None \<Rightarrow>
          (case io SelectReadModel of
             Some err \<Rightarrow> (Inl (''failed to find order: '' @ err), s)
           | None \<Rightarrow>
               (case order_read_models s orderID of
                  None \<Rightarrow> (Inl ''order not found'', s)
                | Some row \<Rightarrow>
                    (let order =
                       \<lparr>dto_ID = orderID,
                        dto_CustomerID = row_customer_id row,
                        dto_Status = row_status row,
                        dto_TotalAmount = \<lparr>Amount = row_total_amount row, Currency = ''USD''\<rparr>,
                        dto_ShippingAddress = row_shipping_address row,
                        dto_Items =
                          map (\<lambda>item. item\<lparr>dto_Price := (dto_Price item)\<lparr>Currency := ''USD''\<rparr>\<rparr>)
                            (row_items row),
                        dto_CreatedAt = row_created_at row,
                        dto_UpdatedAt = row_updated_at row\<rparr>
                     in (Inr order, redis_Set io cacheKey order s)))))"

text \<open>
  \<open>CreateOrder\<close>: the INSERT ... ON CONFLICT (id) DO UPDATE writes every column of a
  new row and every column but \<open>created_at\<close> of an existing one; then the cache is set.
\<close>

definition CreateOrder :: "ReadIO \<Rightarrow> OrderDTO \<Rightarrow> ReadStore \<Rightarrow> error option \<times> ReadStore" where
  "CreateOrder io order s =
     (case io UpsertReadModel of
        Some err \<Rightarrow> (Some (''failed to save order: '' @ err), s)
      | None \<Rightarrow>
          (let row =
             \<lparr>row_customer_id = dto_CustomerID order,
              row_status = dto_Status order,
              row_total_amount = Amount (dto_TotalAmount order),
              row_shipping_address = dto_ShippingAddress order,
              row_items = dto_Items order,
              row_created_at =
                (case order_read_models s (dto_ID order) of
                   None \<Rightarrow> dto_CreatedAt order
                 | Some old \<Rightarrow> row_created_at old),
              row_updated_at = dto_UpdatedAt order\<rparr>
           in (None,
               redis_Set io (''order:'' @ dto_ID order) order
                 (s\<lparr>order_read_models := (order_read_models s)(dto_ID order \<mapsto> row)\<rparr>))))"

definition UpdateOrder :: "ReadIO \<Rightarrow> OrderDTO \<Rightarrow> ReadStore \<Rightarrow> error option \<times> ReadStore" where
  "UpdateOrder io order s = CreateOrder io order s"

section \<open>Projection handler (order-reporting-service/internal/handlers)\<close>

definition handleOrderCreated ::
  "ReadIO \<Rightarrow> DomainEvent \<Rightarrow> string \<Rightarrow> OrderItemData list \<Rightarrow> Money \<Rightarrow> Address \<Rightarrow>
   ReadStore \<Rightarrow> error option \<times> ReadStore" where
  "handleOrderCreated io event customerID items totalAmount shippingAddress s =
     (let items' =
        map (\<lambda>item. \<lparr>dto_ProductID = data_ProductID item, dto_Quantity = data_Quantity item,
                      dto_Price = data_Price item\<rparr>) items;
          order =
            \<lparr>dto_ID = AggregateID event,
             dto_CustomerID = customerID,
             dto_Status = ''draft'',
             dto_TotalAmount = totalAmount,
             dto_ShippingAddress = shippingAddress,
             dto_Items = items',
             dto_CreatedAt = OccurredAt event,
             dto_UpdatedAt = OccurredAt event\<rparr>
      in CreateOrder io order s)"

text \<open>
  \<open>handleOrderConfirmed\<close>, \<open>handleOrderShipped\<close>, \<open>handleOrderDelivered\<close> and
  \<open>handleOrderCancelled\<close> are the same body with a different status literal.
\<close>

definition handleStatus ::
  "string \<Rightarrow> ReadIO \<Rightarrow> DomainEvent \<Rightarrow> ReadStore \<Rightarrow> error option \<times> ReadStore" where
  "handleStatus status io event s =
     (case GetOrder io (AggregateID event) s of
        (Inl err, s') \<Rightarrow> (Some err, s')
      | (Inr order, s') \<Rightarrow>
          UpdateOrder io (order\<lparr>dto_Status := status, dto_UpdatedAt := OccurredAt event\<rparr>) s')"

definition handleOrderConfirmed :: "ReadIO \<Rightarrow> DomainEvent \<Rightarrow> ReadStore \<Rightarrow> error option \<times> ReadStore" where
  "handleOrderConfirmed = handleStatus ''confirmed''"

definition handleOrderShipped :: "ReadIO \<Rightarrow> DomainEvent \<Rightarrow> ReadStore \<Rightarrow> error option \<times> ReadStore" where
  "handleOrderShipped = handleStatus ''shipped''"

definition handleOrderDelivered :: "ReadIO \<Rightarrow> DomainEvent \<Rightarrow> ReadStore \<Rightarrow> error option \<times> ReadStore" where
  "handleOrderDelivered = handleStatus ''delivered''"

definition handleOrderCancelled :: "ReadIO \<Rightarrow> DomainEvent \<Rightarrow> ReadStore \<Rightarrow> error option \<times> ReadStore" where
  "handleOrderCancelled = handleStatus ''cancelled''"

text \<open>The "Recalculate total (simplified)" loop of the two item handlers.\<close>

fun dto_total_loop :: "int64 \<Rightarrow> OrderItemDTO list \<Rightarrow> int64" where
  "dto_total_loop tot [] = tot"
| "dto_total_loop tot (item # rest) =
     dto_total_loop (tot + Amount (dto_Price item) * dto_Quantity item) rest"

definition set_total :: "OrderDTO \<Rightarrow> OrderDTO" where
  "set_total order =
     order\<lparr>dto_TotalAmount := (dto_TotalAmount order)\<lparr>Amount := dto_total_loop 0 (dto_Items order)\<rparr>\<rparr>"

definition handleOrderItemAdded ::
  "ReadIO \<Rightarrow> DomainEvent \<Rightarrow> string \<Rightarrow> int64 \<Rightarrow> Money \<Rightarrow> ReadStore \<Rightarrow> error option \<times> ReadStore" where
  "handleOrderItemAdded io event productID quantity price s =
     (case GetOrder io (AggregateID event) s of
        (Inl err, s') \<Rightarrow> (Some err, s')
      | (Inr order, s') \<Rightarrow>
          (let newItem = \<lparr>dto_ProductID = productID, dto_Quantity = quantity, dto_Price = price\<rparr>;
               order1 = order\<lparr>dto_Items := dto_Items order @ [newItem],
                              dto_UpdatedAt := OccurredAt event\<rparr>
           in UpdateOrder io (set_total order1) s'))"

definition handleOrderItemRemoved ::
  "ReadIO \<Rightarrow> DomainEvent \<Rightarrow> string \<Rightarrow> ReadStore \<Rightarrow> error option \<times> ReadStore" where
  "handleOrderItemRemoved io event productID s =
     (case GetOrder io (AggregateID event) s of
        (Inl err, s') \<Rightarrow> (Some err, s')
      | (Inr order, s') \<Rightarrow>
          (let items' =
             (case first_index dto_ProductID productID (dto_Items order) of
                Some i \<Rightarrow> cut_at i (dto_Items order)
              | None \<Rightarrow> dto_Items order);
               order1 = order\<lparr>dto_Items := items', dto_UpdatedAt := OccurredAt event\<rparr>
           in UpdateOrder io (set_total order1) s'))"

fun Handle :: "ReadIO \<Rightarrow> DomainEvent \<Rightarrow> ReadStore \<Rightarrow> error option \<times> ReadStore" where
  "Handle io (OrderCreatedEvent b customerID items totalAmount shippingAddress) s =
     handleOrderCreated io (OrderCreatedEvent b customerID items totalAmount shippingAddress)
       customerID items totalAmount shippingAddress s"
| "Handle io (OrderConfirmedEvent b customerID) s =
     handleOrderConfirmed io (OrderConfirmedEvent b customerID) s"
| "Handle io (OrderShippedEvent b customerID) s =
     handleOrderShipped io (OrderShippedEvent b customerID) s"
| "Handle io (OrderDeliveredEvent b customerID) s =
     handleOrderDelivered io (OrderDeliveredEvent b customerID) s"
| "Handle io (OrderCancelledEvent b customerID reason) s =
     handleOrderCancelled io (OrderCancelledEvent b customerID reason) s"
| "Handle io (OrderItemAddedEvent b productID quantity price) s =
     handleOrderItemAdded io (OrderItemAddedEvent b productID quantity price)
       productID quantity price s"
| "Handle io (OrderItemRemovedEvent b productID) s =
     handleOrderItemRemoved io (OrderItemRemovedEvent b productID) productID s"
| "Handle io (BaseEvent b) s = (None, s)"

text \<open>The event kinds of the specification, as predicates on the event's Go type.\<close>

fun is_status_kind :: "DomainEvent \<Rightarrow> bool" where
  "is_status_kind (OrderConfirmedEvent b c) = True"
| "is_status_kind (OrderShippedEvent b c) = True"
| "is_status_kind (OrderDeliveredEvent b c) = True"
| "is_status_kind (OrderCancelledEvent b c r) = True"
| "is_status_kind e = False"


fun is_item_kind :: "DomainEvent \<Rightarrow> bool" where
  "is_item_kind (OrderItemAddedEvent b p q m) = True"
| "is_item_kind (OrderItemRemovedEvent b p) = True"
| "is_item_kind e = False"

text \<open>No statement fails.\<close>

definition read_ok :: ReadIO where
  "read_ok = (\<lambda>stmt. None)"

text \<open>
  The aggregate identity has no read-model record: no row in the table and no cached copy.
\<close>

definition no_record :: "string \<Rightarrow> ReadStore \<Rightarrow> bool" where
  "no_record orderID s \<longleftrightarrow>
     order_read_models s orderID = None \<and> redis s (''order:'' @ orderID) = None"

section \<open>Event bus (shared/infrastructure/eventbus)\<close>

text \<open>
  The fields of the Kafka client's \<open>Message\<close> that a producer reads: the topic and
  partition, the key, the value and the headers. \<open>Publish\<close> fills in the topic, the
  partition (\<open>PartitionAny\<close>, which is -1), the value and two headers; a field it does
  not name has Go's zero value, the empty byte string for \<open>Key\<close>. The producer and the
  broker are outside the repository: \<open>producer\<close> tells how a message fares.
\<close>

record Message =
  msg_Topic :: string
  msg_Partition :: int
  msg_Key :: string
  msg_Value :: DomainEvent
  msg_Headers :: "(string \<times> string) list"

definition PartitionAny :: int where
  "PartitionAny = - 1"

datatype ProduceResult =
    ProduceError error
  | Delivered
  | DeliveryFailed error
  | ContextDone error

type_synonym Producer = "Message \<Rightarrow> ProduceResult"

definition Publish_message :: "DomainEvent \<Rightarrow> Message" where
  "Publish_message event =
     \<lparr>msg_Topic = ''orders'',
      msg_Partition = PartitionAny,
      msg_Key = [],
      msg_Value = event,
      msg_Headers = [(''event-type'', Type event), (''aggregate-id'', AggregateID event)]\<rparr>"

definition Publish :: "Producer \<Rightarrow> DomainEvent \<Rightarrow> error option" where
  "Publish producer event =
     (case producer (Publish_message event) of
        ProduceError err \<Rightarrow> Some (''failed to produce message: '' @ err)
      | Delivered \<Rightarrow> None
      | DeliveryFailed err \<Rightarrow> Some (''delivery failed: '' @ err)
      | ContextDone err \<Rightarrow> Some err)"

section \<open>Write-side database (order-management-service/internal/repositories)\<close>

text \<open>
  The four tables of the command side. \<open>orders\<close> is a map from its primary key;
  the others are the lists of their rows in insertion order. Every statement sent to
  the database may fail: \<open>io\<close> gives the driver's error for a statement, or \<open>None\<close>.
  As on the read side a JSON document is the value it encodes, so \<open>json.Marshal\<close> and
  the scanning of a row that was read have no failing branch in the model.
\<close>

record OrdersRow =
  o_customer_id :: string
  o_status :: string
  o_total_amount :: int64
  o_shipping_address :: Address
  o_created_at :: Time
  o_updated_at :: Time

record OrderItemsRow =
  oi_order_id :: string
  oi_product_id :: string
  oi_quantity :: int64
  oi_price_amount :: int64
  oi_price_currency :: string

record EventRow =
  ev_aggregate_id :: string
  ev_event_type :: string
  ev_event_data :: DomainEvent
  ev_version :: int
  ev_occurred_at :: Time

record OutboxEvent =
  ob_ID :: string
  ob_EventType :: string
  ob_EventData :: DomainEvent
  ob_CreatedAt :: Time
  ob_Processed :: bool

record WriteDB =
  orders :: "string \<rightharpoonup> OrdersRow"
  order_items :: "OrderItemsRow list"
  events :: "EventRow list"
  outbox_events :: "OutboxEvent list"

datatype WriteStmt =
    UpsertOrder
  | DeleteOrderItems
  | InsertOrderItem nat
  | SelectOrder
  | SelectOrderItems
  | BeginTx
  | InsertEvent nat
  | CommitTx
  | InsertOutbox
  | SelectOutbox
  | UpdateOutbox string

type_synonym WriteIO = "WriteStmt \<Rightarrow> error option"

subsection \<open>order\_repository.go\<close>

fun insert_items :: "WriteIO \<Rightarrow> string \<Rightarrow> nat \<Rightarrow> OrderItem list \<Rightarrow> WriteDB \<Rightarrow> error option \<times> WriteDB" where
  "insert_items io orderID i [] db = (None, db)"
| "insert_items io orderID i (item # rest) db =
     (case io (InsertOrderItem i) of
        Some err \<Rightarrow> (Some (''failed to save order item: '' @ err), db)
      | None \<Rightarrow>
          insert_items io orderID (i + 1) rest
            (db\<lparr>order_items := order_items db @
               [\<lparr>oi_order_id = orderID, oi_product_id = ProductID item,
                 oi_quantity = Quantity item, oi_price_amount = Amount (Price item),
                 oi_price_currency = Currency (Price item)\<rparr>]\<rparr>))"

definition saveOrderItems :: "WriteIO \<Rightarrow> Order \<Rightarrow> WriteDB \<Rightarrow> error option \<times> WriteDB" where
  "saveOrderItems io ord db =
     (case io DeleteOrderItems of
        Some err \<Rightarrow> (Some (''failed to delete existing order items: '' @ err), db)
      | None \<Rightarrow>
          insert_items io (ID ord) 0 (Items ord)
            (db\<lparr>order_items := filter (\<lambda>r. oi_order_id r \<noteq> ID ord) (order_items db)\<rparr>))"

definition Save :: "WriteIO \<Rightarrow> Order \<Rightarrow> WriteDB \<Rightarrow> error option \<times> WriteDB" where
  "Save io ord db =
     (case io UpsertOrder of
        Some err \<Rightarrow> (Some (''failed to save order: '' @ err), db)
      | None \<Rightarrow>
          (let row =
             \<lparr>o_customer_id = CustomerID ord,
              o_status = Status ord,
              o_total_amount = Amount (TotalAmount ord),
              o_shipping_address = ShippingAddress ord,
              o_created_at =
                (case orders db (ID ord) of
                   None \<Rightarrow> CreatedAt ord
                 | Some old \<Rightarrow> o_created_at old),
              o_updated_at = UpdatedAt ord\<rparr>
           in saveOrderItems io ord (db\<lparr>orders := (orders db)(ID ord \<mapsto> row)\<rparr>)))"

definition Update :: "WriteIO \<Rightarrow> Order \<Rightarrow> WriteDB \<Rightarrow> error option \<times> WriteDB" where
  "Update io ord db = Save io ord db"

text \<open>
  \<open>findOrderItems\<close>: ORDER BY product\_id is modelled by a stable sort on the byte
  order of the product identifiers.
\<close>

definition findOrderItems :: "WriteIO \<Rightarrow> string \<Rightarrow> WriteDB \<Rightarrow> error + OrderItem list" where
  "findOrderItems io orderID db =
     (case io SelectOrderItems of
        Some err \<Rightarrow> Inl (''failed to query order items: '' @ err)
      | None \<Rightarrow>
          Inr (map (\<lambda>r. \<lparr>ProductID = oi_product_id r, Quantity = oi_quantity r,
                           Price = \<lparr>Amount = oi_price_amount r, Currency = oi_price_currency r\<rparr>\<rparr>)
                 (sort_key oi_product_id (filter (\<lambda>r. oi_order_id r = orderID) (order_items db)))))"

definition FindByID :: "WriteIO \<Rightarrow> string \<Rightarrow> WriteDB \<Rightarrow> error + Order" where
  "FindByID io orderID db =
     (case io SelectOrder of
        Some err \<Rightarrow> Inl (''failed to find order: '' @ err)
      | None \<Rightarrow>
          (case orders db orderID of
             None \<Rightarrow> Inl ''order not found''
           | Some row \<Rightarrow>
               (case findOrderItems io orderID db of
                  Inl err \<Rightarrow> Inl (''failed to load order items: '' @ err)
                | Inr items \<Rightarrow>
                    Inr \<lparr>ID = orderID,
                         CustomerID = o_customer_id row,
                         Items = items,
                         Status = o_status row,
                         TotalAmount = \<lparr>Amount = o_total_amount row, Currency = ''USD''\<rparr>,
                         ShippingAddress = o_shipping_address row,
                         CreatedAt = o_created_at row,
                         UpdatedAt = o_updated_at row\<rparr>)))"

subsection \<open>event\_store.go\<close>

text \<open>
  \<open>SaveEvents\<close> runs its inserts in one transaction: \<open>tx_insert_events\<close> works on the
  transaction's view of the table, and the table changes only when the commit succeeds.
  The table is UNIQUE on (aggregate\_id, version), so an insert of a taken pair fails.
\<close>

fun tx_insert_events ::
  "WriteIO \<Rightarrow> string \<Rightarrow> int \<Rightarrow> nat \<Rightarrow> DomainEvent list \<Rightarrow> EventRow list \<Rightarrow> error + EventRow list" where
  "tx_insert_events io aggregateID expectedVersion i [] rows = Inr rows"
| "tx_insert_events io aggregateID expectedVersion i (event # rest) rows =
     (let version = expectedVersion + int i + 1 in
      case io (InsertEvent i) of
        Some err \<Rightarrow> Inl (''failed to save event: '' @ err)
      | None \<Rightarrow>
          if \<exists>r \<in> set rows. ev_aggregate_id r = aggregateID \<and> ev_version r = version then
            Inl (''failed to save event: '' @ ''duplicate key value violates unique constraint'')
          else
            tx_insert_events io aggregateID expectedVersion (i + 1) rest
              (rows @ [\<lparr>ev_aggregate_id = aggregateID, ev_event_type = Type event,
                        ev_event_data = event, ev_version = version,
                        ev_occurred_at = OccurredAt event\<rparr>]))"

definition SaveEvents ::
  "WriteIO \<Rightarrow> string \<Rightarrow> DomainEvent list \<Rightarrow> int \<Rightarrow> WriteDB \<Rightarrow> error option \<times> WriteDB" where
  "SaveEvents io aggregateID domainEvents expectedVersion db =
     (case io BeginTx of
        Some err \<Rightarrow> (Some (''failed to begin transaction: '' @ err), db)
      | None \<Rightarrow>
          (case tx_insert_events io aggregateID expectedVersion 0 domainEvents (events db) of
             Inl err \<Rightarrow> (Some err, db)
           | Inr rows \<Rightarrow>
               (case io CommitTx of
                  Some err \<Rightarrow> (Some err, db)
                | None \<Rightarrow> (None, db\<lparr>events := rows\<rparr>))))"

subsection \<open>outbox\_repository.go\<close>

text \<open>
  \<open>SaveEvent\<close> sends its INSERT on the connection pool (\<open>r.db.ExecContext\<close>), as a
  statement of its own; the fresh UUID and the clock reading are inputs. \<open>id\<close> is
  the primary key of the table.
\<close>

definition SaveEvent :: "WriteIO \<Rightarrow> string \<Rightarrow> Time \<Rightarrow> DomainEvent \<Rightarrow> WriteDB \<Rightarrow> error option \<times> WriteDB" where
  "SaveEvent io uuid now event db =
     (case io InsertOutbox of
        Some err \<Rightarrow> (Some (''failed to save event to outbox: '' @ err), db)
      | None \<Rightarrow>
          if uuid \<in> ob_ID ` set (outbox_events db) then
            (Some (''failed to save event to outbox: '' @
                   ''duplicate key value violates unique constraint''), db)
          else
            (None,
             db\<lparr>outbox_events := outbox_events db @
               [\<lparr>ob_ID = uuid, ob_EventType = Type event, ob_EventData = event,
                 ob_CreatedAt = now, ob_Processed = False\<rparr>]\<rparr>))"

text \<open>
  \<open>GetUnprocessedEvents\<close>: WHERE processed = false ORDER BY created\_at ASC LIMIT 100.
  Rows with equal \<open>created_at\<close> come in insertion order (a stable sort).
\<close>

definition GetUnprocessedEvents :: "WriteIO \<Rightarrow> WriteDB \<Rightarrow> error + OutboxEvent list" where
  "GetUnprocessedEvents io db =
     (case io SelectOutbox of
        Some err \<Rightarrow> Inl (''failed to query unprocessed events: '' @ err)
      | None \<Rightarrow>
          Inr (take 100 (sort_key ob_CreatedAt
                 (filter (\<lambda>r. ob_Processed r = False) (outbox_events db)))))"

definition MarkAsProcessed :: "WriteIO \<Rightarrow> string \<Rightarrow> WriteDB \<Rightarrow> error option \<times> WriteDB" where
  "MarkAsProcessed io eventID db =
     (case io (UpdateOutbox eventID) of
        Some err \<Rightarrow> (Some (''failed to mark event as processed: '' @ err), db)
      | None \<Rightarrow>
          (let rowsAffected = length (filter (\<lambda>r. ob_ID r = eventID) (outbox_events db));
               db' = db\<lparr>outbox_events :=
                        map (\<lambda>r. if ob_ID r = eventID then r\<lparr>ob_Processed := True\<rparr> else r)
                          (outbox_events db)\<rparr>
           in if rowsAffected = 0 then (Some (''event not found: '' @ eventID), db')
              else (None, db')))"

section \<open>Publisher (order-management-service/internal/handlers, EventPublisher)\<close>

text \<open>
  \<open>parseEvent\<close> decodes the stored document into the struct that the stored type
  name selects. Decoding fills the fields whose JSON keys the document has and leaves
  the others at their zero values; the functions \<open>json_...\<close> read one key each. The
  strings of the stored event are taken to be valid UTF-8, so that the document holds
  them unchanged.
\<close>

definition Address_zero :: Address where
  "Address_zero = \<lparr>Street = [], City = [], State = [], Zip = [], Country = []\<rparr>"

fun json_customer_id :: "DomainEvent \<Rightarrow> string" where
  "json_customer_id (OrderCreatedEvent b c items t a) = c"
| "json_customer_id (OrderConfirmedEvent b c) = c"
| "json_customer_id (OrderShippedEvent b c) = c"
| "json_customer_id (OrderDeliveredEvent b c) = c"
| "json_customer_id (OrderCancelledEvent b c r) = c"
| "json_customer_id e = []"

fun json_items :: "DomainEvent \<Rightarrow> OrderItemData list" where
  "json_items (OrderCreatedEvent b c items t a) = items"
| "json_items e = []"

fun json_total_amount :: "DomainEvent \<Rightarrow> Money" where
  "json_total_amount (OrderCreatedEvent b c items t a) = t"
| "json_total_amount e = Money_zero"

fun json_shipping_address :: "DomainEvent \<Rightarrow> Address" where
  "json_shipping_address (OrderCreatedEvent b c items t a) = a"
| "json_shipping_address e = Address_zero"

fun json_reason :: "DomainEvent \<Rightarrow> string" where
  "json_reason (OrderCancelledEvent b c r) = r"
| "json_reason e = []"

fun json_product_id :: "DomainEvent \<Rightarrow> string" where
  "json_product_id (OrderItemAddedEvent b p q m) = p"
| "json_product_id (OrderItemRemovedEvent b p) = p"
| "json_product_id e = []"

fun json_quantity :: "DomainEvent \<Rightarrow> int64" where
  "json_quantity (OrderItemAddedEvent b p q m) = q"
| "json_quantity e = 0"

fun json_price :: "DomainEvent \<Rightarrow> Money" where
  "json_price (OrderItemAddedEvent b p q m) = m"
| "json_price e = Money_zero"

definition parseEvent :: "string \<Rightarrow> DomainEvent \<Rightarrow> error + DomainEvent" where
  "parseEvent eventType eventData =
     (if eventType = ''OrderCreated'' then
        Inr (OrderCreatedEvent (base eventData) (json_customer_id eventData) (json_items eventData)
               (json_total_amount eventData) (json_shipping_address eventData))
      else if eventType = ''OrderConfirmed'' then
        Inr (OrderConfirmedEvent (base eventData) (json_customer_id eventData))
      else if eventType = ''OrderShipped'' then
        Inr (OrderShippedEvent (base eventData) (json_customer_id eventData))
      else if eventType = ''OrderDelivered'' then
        Inr (OrderDeliveredEvent (base eventData) (json_customer_id eventData))
      else if eventType = ''OrderCancelled'' then
        Inr (OrderCancelledEvent (base eventData) (json_customer_id eventData) (json_reason eventData))
      else if eventType = ''OrderItemAdded'' then
        Inr (OrderItemAddedEvent (base eventData) (json_product_id eventData)
               (json_quantity eventData) (json_price eventData))
      else if eventType = ''OrderItemRemoved'' then
        Inr (OrderItemRemovedEvent (base eventData) (json_product_id eventData))
      else Inl (''unknown event type: '' @ eventType))"

definition processEvent :: "Producer \<Rightarrow> OutboxEvent \<Rightarrow> error option" where
  "processEvent producer outboxEvent =
     (case parseEvent (ob_EventType outboxEvent) (ob_EventData outboxEvent) of
        Inl err \<Rightarrow> Some err
      | Inr event \<Rightarrow> Publish producer event)"

text \<open>
  The loop of \<open>processBatch\<close>: an entry whose \<open>processEvent\<close> fails is logged and
  skipped (\<open>continue\<close>); otherwise it is marked, and a failure of the marking is only
  logged.
\<close>

fun batch_loop :: "WriteIO \<Rightarrow> Producer \<Rightarrow> OutboxEvent list \<Rightarrow> WriteDB \<Rightarrow> WriteDB" where
  "batch_loop io producer [] db = db"
| "batch_loop io producer (outboxEvent # rest) db =
     (case processEvent producer outboxEvent of
        Some err \<Rightarrow> batch_loop io producer rest db
      | None \<Rightarrow> batch_loop io producer rest (snd (MarkAsProcessed io (ob_ID outboxEvent) db)))"

definition processBatch :: "WriteIO \<Rightarrow> Producer \<Rightarrow> WriteDB \<Rightarrow> error option \<times> WriteDB" where
  "processBatch io producer db =
     (case GetUnprocessedEvents io db of
        Inl err \<Rightarrow> (Some err, db)
      | Inr outboxEvents \<Rightarrow>
          if length outboxEvents = 0 then (None, db)
          else (None, batch_loop io producer outboxEvents db))"

section \<open>Commands and the command service (order-management-service/internal/handlers)\<close>

record OrderItemCommand =
  cmd_ProductID :: string
  cmd_Quantity :: int64
  cmd_Price :: Money

record CreateOrderCommand =
  cmd_CustomerID :: string
  cmd_Items :: "OrderItemCommand list"
  cmd_ShippingAddress :: Address

text \<open>
  What a call of the command service takes from outside the repository: the outcome of
  each database statement, the clock reading (every \<open>time.Now()\<close> of one call reads
  the same value), the fresh UUIDs of the order and of the outbox entry, and the library
  function \<open>strings.TrimSpace\<close>.
\<close>

record CmdEnv =
  env_io :: WriteIO
  env_now :: Time
  env_order_uuid :: string
  env_outbox_uuid :: string
  env_TrimSpace :: "string \<Rightarrow> string"

definition Money_Validate :: "Money \<Rightarrow> error option" where
  "Money_Validate m =
     (if Currency m = [] then Some ''currency cannot be empty''
      else if length (Currency m) \<noteq> 3 then Some ''currency must be 3 characters''
      else None)"

definition Address_Validate :: "(string \<Rightarrow> string) \<Rightarrow> Address \<Rightarrow> error option" where
  "Address_Validate trim a =
     (if trim (Street a) = [] then Some ''street cannot be empty''
      else if trim (City a) = [] then Some ''city cannot be empty''
      else if trim (State a) = [] then Some ''state cannot be empty''
      else if trim (Zip a) = [] then Some ''zip cannot be empty''
      else if trim (Country a) = [] then Some ''country cannot be empty''
      else None)"

definition OrderItemCommand_Validate :: "OrderItemCommand \<Rightarrow> error option" where
  "OrderItemCommand_Validate i =
     (if cmd_ProductID i = [] then Some ''product_id is required''
      else if sint (cmd_Quantity i) \<le> 0 then Some ''quantity must be greater than zero''
      else case Money_Validate (cmd_Price i) of
        Some err \<Rightarrow> Some (''invalid price: '' @ err)
      | None \<Rightarrow> None)"

text \<open>The verb \<open>%d\<close> of \<open>fmt.Errorf\<close> on a slice index.\<close>

function decimal :: "nat \<Rightarrow> string" where
  "decimal n =
     (if n < 10 then [char_of (48 + n)]
      else decimal (n div 10) @ [char_of (48 + n mod 10)])"
  by pat_completeness auto
termination
  by (relation "measure id") auto

fun validate_items :: "nat \<Rightarrow> OrderItemCommand list \<Rightarrow> error option" where
  "validate_items i [] = None"
| "validate_items i (item # rest) =
     (case OrderItemCommand_Validate item of
        Some err \<Rightarrow> Some (''invalid item at index '' @ decimal i @ '': '' @ err)
      | None \<Rightarrow> validate_items (i + 1) rest)"

definition CreateOrderCommand_Validate :: "(string \<Rightarrow> string) \<Rightarrow> CreateOrderCommand \<Rightarrow> error option" where
  "CreateOrderCommand_Validate trim c =
     (if cmd_CustomerID c = [] then Some ''customer_id is required''
      else if length (cmd_Items c) = 0 then Some ''at least one item is required''
      else case Address_Validate trim (cmd_ShippingAddress c) of
        Some err \<Rightarrow> Some (''invalid shipping address: '' @ err)
      | None \<Rightarrow> validate_items 0 (cmd_Items c))"

text \<open>The "Add items" loop of \<open>CreateOrder\<close>.\<close>

fun add_items :: "Time \<Rightarrow> OrderItemCommand list \<Rightarrow> Order \<Rightarrow> error + Order" where
  "add_items now [] ord = Inr ord"
| "add_items now (item # rest) ord =
     (case AddItem now (cmd_ProductID item) (cmd_Quantity item) (cmd_Price item) ord of
        (Some err, ord') \<Rightarrow> Inl (''failed to add item: '' @ err)
      | (None, ord') \<Rightarrow> add_items now rest ord')"

definition CommandService_CreateOrder ::
  "CmdEnv \<Rightarrow> CreateOrderCommand \<Rightarrow> WriteDB \<Rightarrow> (error + Order) \<times> WriteDB" where
  "CommandService_CreateOrder env cmd db =
     (case CreateOrderCommand_Validate (env_TrimSpace env) cmd of
        Some err \<Rightarrow> (Inl (''invalid command: '' @ err), db)
      | None \<Rightarrow>
     (case add_items (env_now env) (cmd_Items cmd)
             (NewOrder (env_order_uuid env) (env_now env) (env_now env)
                (cmd_CustomerID cmd) (cmd_ShippingAddress cmd)) of
        Inl err \<Rightarrow> (Inl err, db)
      | Inr ord \<Rightarrow>
     (case Save (env_io env) ord db of
        (Some err, db1) \<Rightarrow> (Inl (''failed to save order: '' @ err), db1)
      | (None, db1) \<Rightarrow>
     (let event = NewOrderCreatedEvent (env_now env) ord in
      case SaveEvents (env_io env) (ID ord) [event] 0 db1 of
        (Some err, db2) \<Rightarrow> (Inl (''failed to save event: '' @ err), db2)
      | (None, db2) \<Rightarrow>
     (case SaveEvent (env_io env) (env_outbox_uuid env) (env_now env) event db2 of
        (Some err, db3) \<Rightarrow> (Inl (''failed to save event to outbox: '' @ err), db3)
      | (None, db3) \<Rightarrow> (Inr ord, db3))))))"

text \<open>
  \<open>ConfirmOrder\<close>, \<open>CancelOrder\<close>, \<open>AddOrderItem\<close> and \<open>RemoveOrderItem\<close> share their
  shape: load the order, call the aggregate method, update the order, build the event,
  save it to the outbox. \<open>load_apply_save\<close> is that shape, with the method, the
  prefix of its error and the event constructor as arguments.
\<close>

definition load_apply_save ::
  "CmdEnv \<Rightarrow> string \<Rightarrow> (Order \<Rightarrow> error option \<times> Order) \<Rightarrow> string \<Rightarrow> (Order \<Rightarrow> DomainEvent) \<Rightarrow>
   WriteDB \<Rightarrow> error option \<times> WriteDB" where
  "load_apply_save env orderID method prefix mk_event db =
     (case FindByID (env_io env) orderID db of
        Inl err \<Rightarrow> (Some (''failed to find order: '' @ err), db)
      | Inr ord \<Rightarrow>
     (case method ord of
        (Some err, ord') \<Rightarrow> (Some (prefix @ err), db)
      | (None, ord') \<Rightarrow>
     (case Update (env_io env) ord' db of
        (Some err, db1) \<Rightarrow> (Some (''failed to update order: '' @ err), db1)
      | (None, db1) \<Rightarrow>
     (case SaveEvent (env_io env) (env_outbox_uuid env) (env_now env) (mk_event ord') db1 of
        (Some err, db2) \<Rightarrow> (Some (''failed to save event to outbox: '' @ err), db2)
      | (None, db2) \<Rightarrow> (None, db2)))))"

definition CommandService_ConfirmOrder :: "CmdEnv \<Rightarrow> string \<Rightarrow> WriteDB \<Rightarrow> error option \<times> WriteDB" where
  "CommandService_ConfirmOrder env orderID db =
     load_apply_save env orderID (Confirm (env_now env)) ''failed to confirm order: ''
       (NewOrderConfirmedEvent (env_now env)) db"

definition CommandService_CancelOrder ::
  "CmdEnv \<Rightarrow> string \<Rightarrow> string \<Rightarrow> WriteDB \<Rightarrow> error option \<times> WriteDB" where
  "CommandService_CancelOrder env orderID reason db =
     load_apply_save env orderID (Cancel (env_now env)) ''failed to cancel order: ''
       (\<lambda>ord. NewOrderCancelledEvent (env_now env) ord reason) db"

definition CommandService_AddOrderItem ::
  "CmdEnv \<Rightarrow> string \<Rightarrow> string \<Rightarrow> int64 \<Rightarrow> Money \<Rightarrow> WriteDB \<Rightarrow> error option \<times> WriteDB" where
  "CommandService_AddOrderItem env orderID productID quantity price db =
     load_apply_save env orderID (AddItem (env_now env) productID quantity price)
       ''failed to add item: ''
       (\<lambda>ord. NewOrderItemAddedEvent (env_now env) ord productID quantity price) db"

definition CommandService_RemoveOrderItem ::
  "CmdEnv \<Rightarrow> string \<Rightarrow> string \<Rightarrow> WriteDB \<Rightarrow> error option \<times> WriteDB" where
  "CommandService_RemoveOrderItem env orderID productID db =
     load_apply_save env orderID (RemoveItem (env_now env) productID) ''failed to remove item: ''
       (\<lambda>ord. NewOrderItemRemovedEvent (env_now env) ord productID) db"

text \<open>The five commands as one type, and a run of the service over a list of calls.\<close>

datatype Command =
    CmdCreateOrder CreateOrderCommand
  | CmdConfirmOrder string
  | CmdCancelOrder string string
  | CmdAddOrderItem string string int64 Money
  | CmdRemoveOrderItem string string

fun exec :: "CmdEnv \<Rightarrow> Command \<Rightarrow> WriteDB \<Rightarrow> WriteDB" where
  "exec env (CmdCreateOrder cmd) db = snd (CommandService_CreateOrder env cmd db)"
| "exec env (CmdConfirmOrder orderID) db = snd (CommandService_ConfirmOrder env orderID db)"
| "exec env (CmdCancelOrder orderID reason) db =
     snd (CommandService_CancelOrder env orderID reason db)"
| "exec env (CmdAddOrderItem orderID productID quantity price) db =
     snd (CommandService_AddOrderItem env orderID productID quantity price db)"
| "exec env (CmdRemoveOrderItem orderID productID) db =
     snd (CommandService_RemoveOrderItem env orderID productID db)"

fun run :: "(CmdEnv \<times> Command) list \<Rightarrow> WriteDB \<Rightarrow> WriteDB" where
  "run [] db = db"
| "run ((env, c) # rest) db = run rest (exec env c db)"

definition empty_db :: WriteDB where
  "empty_db = \<lparr>orders = Map.empty, order_items = [], events = [], outbox_events = []\<rparr>"

section \<open>Auxiliary notions and scenario data\<close>

text \<open>
  The identifiers of the batch entries that \<open>batch_loop\<close> marks: those whose delivery
  and whose marking both succeed.
\<close>

definition marked :: "WriteIO \<Rightarrow> Producer \<Rightarrow> OutboxEvent list \<Rightarrow> string set" where
  "marked io producer es =
     set (map ob_ID
       (filter (\<lambda>e. processEvent producer e = None \<and> io (UpdateOutbox (ob_ID e)) = None) es))"

text \<open>The event-store row of the Created event of an order.\<close>

definition created_row :: "Time \<Rightarrow> Order \<Rightarrow> EventRow" where
  "created_row now ord =
     \<lparr>ev_aggregate_id = ID ord, ev_event_type = ''OrderCreated'',
      ev_event_data = NewOrderCreatedEvent now ord, ev_version = 1, ev_occurred_at = now\<rparr>"

text \<open>A Draft order with one line item, and the events and stores built from it.\<close>

definition sample_address :: Address where
  "sample_address =
     \<lparr>Street = ''1 Main St'', City = ''Springfield'', State = ''IL'', Zip = ''62701'',
      Country = ''US''\<rparr>"

definition sample_order :: Order where
  "sample_order =
     \<lparr>ID = ''o1'', CustomerID = ''c1'',
      Items = [\<lparr>ProductID = ''p1'', Quantity = 2, Price = \<lparr>Amount = 1000, Currency = ''USD''\<rparr>\<rparr>],
      Status = OrderStatusDraft, TotalAmount = \<lparr>Amount = 2000, Currency = ''USD''\<rparr>,
      ShippingAddress = sample_address, CreatedAt = 10, UpdatedAt = 10\<rparr>"

definition sample_created :: DomainEvent where
  "sample_created = NewOrderCreatedEvent 10 sample_order"

definition sample_base :: "string \<Rightarrow> Time \<Rightarrow> BaseDomainEvent" where
  "sample_base eventType now =
     \<lparr>EventType = eventType, AggregateIDValue = ''o1'', OccurredAtTime = now\<rparr>"

definition sample_item_added :: DomainEvent where
  "sample_item_added =
     OrderItemAddedEvent (sample_base ''OrderItemAdded'' 20) ''p2'' 1 \<lparr>Amount = 500, Currency = ''USD''\<rparr>"


definition sample_confirmed :: DomainEvent where
  "sample_confirmed = OrderConfirmedEvent (sample_base ''OrderConfirmed'' 40) ''c1''"




definition empty_store :: ReadStore where
  "empty_store = \<lparr>order_read_models = Map.empty, redis = Map.empty\<rparr>"



text \<open>The write side: an environment without failures, and one whose outbox insert fails.\<close>

text \<open>
  \<open>strings.TrimSpace\<close>, for the environment of the scenario: a string is a list of
  bytes in UTF-8, and the white space of Unicode is the six ASCII characters tab, line
  feed, vertical tab, form feed, carriage return and space, and the code points U+0085,
  U+00A0, U+1680, U+2000 to U+200A, U+2028, U+2029, U+202F, U+205F and U+3000, here in
  their encodings. \<open>strip_runes\<close> takes leading encodings off for as long as there is
  one.
\<close>

definition unicode_spaces :: "string list" where
  "unicode_spaces =
     [[CHR 0x09], [CHR 0x0A], [CHR 0x0B], [CHR 0x0C], [CHR 0x0D], [CHR 0x20],
      [CHR 0xC2, CHR 0x85], [CHR 0xC2, CHR 0xA0],
      [CHR 0xE1, CHR 0x9A, CHR 0x80],
      [CHR 0xE2, CHR 0x80, CHR 0x80], [CHR 0xE2, CHR 0x80, CHR 0x81],
      [CHR 0xE2, CHR 0x80, CHR 0x82], [CHR 0xE2, CHR 0x80, CHR 0x83],
      [CHR 0xE2, CHR 0x80, CHR 0x84], [CHR 0xE2, CHR 0x80, CHR 0x85],
      [CHR 0xE2, CHR 0x80, CHR 0x86], [CHR 0xE2, CHR 0x80, CHR 0x87],
      [CHR 0xE2, CHR 0x80, CHR 0x88], [CHR 0xE2, CHR 0x80, CHR 0x89],
      [CHR 0xE2, CHR 0x80, CHR 0x8A],
      [CHR 0xE2, CHR 0x80, CHR 0xA8], [CHR 0xE2, CHR 0x80, CHR 0xA9],
      [CHR 0xE2, CHR 0x80, CHR 0xAF],
      [CHR 0xE2, CHR 0x81, CHR 0x9F],
      [CHR 0xE3, CHR 0x80, CHR 0x80]]"

fun strip_runes :: "string list \<Rightarrow> string \<Rightarrow> string" where
  "strip_runes ws [] = []"
| "strip_runes ws (c # cs) =
     (case find (\<lambda>w. w \<noteq> [] \<and> take (length w) (c # cs) = w) ws of
        Some w \<Rightarrow> strip_runes ws (drop (length w - 1) cs)
      | None \<Rightarrow> c # cs)"

definition trim_spaces :: "string \<Rightarrow> string" where
  "trim_spaces str =
     rev (strip_runes (map rev unicode_spaces) (rev (strip_runes unicode_spaces str)))"

definition sample_env :: CmdEnv where
  "sample_env =
     \<lparr>env_io = (\<lambda>stmt. None), env_now = 10, env_order_uuid = ''o1'',
      env_outbox_uuid = ''e1'', env_TrimSpace = trim_spaces\<rparr>"

definition outbox_down :: WriteIO where
  "outbox_down = (\<lambda>stmt. if stmt = InsertOutbox then Some ''connection refused'' else None)"

definition confirm_env :: CmdEnv where
  "confirm_env = sample_env\<lparr>env_now := 50, env_outbox_uuid := ''e2''\<rparr>"

definition failing_env :: CmdEnv where
  "failing_env = confirm_env\<lparr>env_io := outbox_down\<rparr>"

definition failing_create_env :: CmdEnv where
  "failing_create_env = sample_env\<lparr>env_io := outbox_down\<rparr>"

definition confirmed_row :: OrdersRow where
  "confirmed_row =
     \<lparr>o_customer_id = ''c1'', o_status = ''confirmed'', o_total_amount = 2000,
      o_shipping_address = sample_address, o_created_at = 10, o_updated_at = 50\<rparr>"

definition sample_cmd :: CreateOrderCommand where
  "sample_cmd =
     \<lparr>cmd_CustomerID = ''c1'',
      cmd_Items = [\<lparr>cmd_ProductID = ''p1'', cmd_Quantity = 2,
                    cmd_Price = \<lparr>Amount = 1000, Currency = ''USD''\<rparr>\<rparr>],
      cmd_ShippingAddress = sample_address\<rparr>"

definition sample_db :: WriteDB where
  "sample_db =
     \<lparr>orders = [''o1'' \<mapsto>
        \<lparr>o_customer_id = ''c1'', o_status = ''draft'', o_total_amount = 2000,
         o_shipping_address = sample_address, o_created_at = 10, o_updated_at = 10\<rparr>],
      order_items =
        [\<lparr>oi_order_id = ''o1'', oi_product_id = ''p1'', oi_quantity = 2,
          oi_price_amount = 1000, oi_price_currency = ''USD''\<rparr>],
      events = [created_row 10 sample_order],
      outbox_events =
        [\<lparr>ob_ID = ''e1'', ob_EventType = ''OrderCreated'', ob_EventData = sample_created,
          ob_CreatedAt = 10, ob_Processed = False\<rparr>]\<rparr>"

text \<open>
  An outbox with a deliverable entry and an older one of an unknown type, and a producer
  that delivers everything.
\<close>

definition entry_confirmed :: OutboxEvent where
  "entry_confirmed =
     \<lparr>ob_ID = ''e2'', ob_EventType = ''OrderConfirmed'', ob_EventData = sample_confirmed,
      ob_CreatedAt = 40, ob_Processed = False\<rparr>"

definition entry_unknown :: OutboxEvent where
  "entry_unknown =
     \<lparr>ob_ID = ''e3'', ob_EventType = ''OrderArchived'', ob_EventData = sample_confirmed,
      ob_CreatedAt = 30, ob_Processed = False\<rparr>"

definition outbox_db :: WriteDB where
  "outbox_db = empty_db\<lparr>outbox_events := [entry_confirmed, entry_unknown]\<rparr>"

definition write_ok :: WriteIO where
  "write_ok = (\<lambda>stmt. None)"

definition delivering :: Producer where
  "delivering = (\<lambda>message. Delivered)"

section \<open>The aggregate: totals, transitions, confirmation\<close>

lemmas OrderStatus_defs =
  OrderStatusDraft_def OrderStatusConfirmed_def OrderStatusShipped_def
  OrderStatusDelivered_def OrderStatusCancelled_def

lemma recalc_loop_sum: "recalc_loop tot items = tot + items_total items"
  by (induction items arbitrary: tot) (simp_all add: items_total_def add.assoc)

lemma recalculateTotal_Amount:
  "Amount (TotalAmount (recalculateTotal ord)) = items_total (Items ord)"
  by (simp add: recalculateTotal_def recalc_loop_sum)

text \<open>
  The total is computed in \<open>int64\<close>. It is the word of the integer sum, so it reads as
  that sum whenever the sum is in the range of \<open>int64\<close>.
\<close>

lemma items_total_word_of_int:
  "items_total items =
     word_of_int (\<Sum>item\<leftarrow>items. sint (Amount (Price item)) * sint (Quantity item))"
  by (induction items) (simp_all add: items_total_def)

lemma items_total_sint:
  assumes "- (2 ^ 63) \<le> (\<Sum>item\<leftarrow>items. sint (Amount (Price item)) * sint (Quantity item))"
      and "(\<Sum>item\<leftarrow>items. sint (Amount (Price item)) * sint (Quantity item)) < 2 ^ 63"
  shows "sint (items_total items) =
           (\<Sum>item\<leftarrow>items. sint (Amount (Price item)) * sint (Quantity item))"
  using assms by (simp add: items_total_word_of_int sint_sbintrunc' signed_take_bit_int_eq_self)

text \<open>
  C7. After every successful \<open>AddItem\<close> or \<open>RemoveItem\<close> the order's total amount is
  the sum, over the items the order then has, of price amount times quantity (in the
  arithmetic of \<open>int64\<close>); and a new order to which the items (price 1000, quantity 2)
  and (price 500, quantity 1) are added has total 2500.
\<close>

theorem C7_total_is_sum_over_items:
  "(AddItem now productID quantity price ord = (None, ord') \<longrightarrow>
      Amount (TotalAmount ord') = items_total (Items ord')) \<and>
   (RemoveItem now productID ord = (None, ord'') \<longrightarrow>
      Amount (TotalAmount ord'') = items_total (Items ord'')) \<and>
   Amount (TotalAmount (snd (AddItem t2 p2 1 \<lparr>Amount = 500, Currency = c2\<rparr>
     (snd (AddItem t1 p1 2 \<lparr>Amount = 1000, Currency = c1\<rparr>
        (NewOrder uuid t0 t0' customerID shippingAddress)))))) = 2500"
proof (intro conjI impI)
  assume "AddItem now productID quantity price ord = (None, ord')"
  then show "Amount (TotalAmount ord') = items_total (Items ord')"
    by (auto simp: AddItem_def recalculateTotal_def recalc_loop_sum split: if_splits)
next
  assume "RemoveItem now productID ord = (None, ord'')"
  then show "Amount (TotalAmount ord'') = items_total (Items ord'')"
    by (auto simp: RemoveItem_def recalculateTotal_def recalc_loop_sum
          split: if_splits option.splits)
next
  show "Amount (TotalAmount (snd (AddItem t2 p2 1 \<lparr>Amount = 500, Currency = c2\<rparr>
     (snd (AddItem t1 p1 2 \<lparr>Amount = 1000, Currency = c1\<rparr>
        (NewOrder uuid t0 t0' customerID shippingAddress)))))) = 2500"
    by (simp add: AddItem_def NewOrder_def recalculateTotal_def OrderStatus_defs)
qed

theorem C7_total_is_sum_over_items_witness:
  "AddItem 2 ''p2'' 1 \<lparr>Amount = 500, Currency = ''USD''\<rparr> sample_order =
     (None, sample_order
        \<lparr>Items := Items sample_order @
           [\<lparr>ProductID = ''p2'', Quantity = 1, Price = \<lparr>Amount = 500, Currency = ''USD''\<rparr>\<rparr>],
         TotalAmount := \<lparr>Amount = 2500, Currency = ''USD''\<rparr>, UpdatedAt := 2\<rparr>) \<and>
   (2500 :: int64) = items_total
     (Items sample_order @
        [\<lparr>ProductID = ''p2'', Quantity = 1, Price = \<lparr>Amount = 500, Currency = ''USD''\<rparr>\<rparr>]) \<and>
   RemoveItem 3 ''p1'' sample_order =
     (None, sample_order
        \<lparr>Items := [], TotalAmount := \<lparr>Amount = 0, Currency = ''USD''\<rparr>, UpdatedAt := 3\<rparr>) \<and>
   (0 :: int64) = items_total []"
proof -
  let ?X = "sample_order
        \<lparr>Items := Items sample_order @
           [\<lparr>ProductID = ''p2'', Quantity = 1, Price = \<lparr>Amount = 500, Currency = ''USD''\<rparr>\<rparr>],
         TotalAmount := \<lparr>Amount = 2500, Currency = ''USD''\<rparr>, UpdatedAt := 2\<rparr>"
  let ?Y = "sample_order
        \<lparr>Items := [], TotalAmount := \<lparr>Amount = 0, Currency = ''USD''\<rparr>, UpdatedAt := 3\<rparr>"
  have a: "AddItem 2 ''p2'' 1 \<lparr>Amount = 500, Currency = ''USD''\<rparr> sample_order = (None, ?X)"
    by (simp add: AddItem_def sample_order_def recalculateTotal_def)
  have r: "RemoveItem 3 ''p1'' sample_order = (None, ?Y)"
    by (simp add: RemoveItem_def sample_order_def recalculateTotal_def cut_at_def)
  from a
    C7_total_is_sum_over_items
      [where now = 2 and productID = "''p2''" and quantity = 1
         and price = "\<lparr>Amount = 500, Currency = ''USD''\<rparr>" and ord = sample_order
         and ord' = ?X]
  have 1: "Amount (TotalAmount ?X) = items_total (Items ?X)" by blast
  from r
    C7_total_is_sum_over_items
      [where now = 3 and productID = "''p1''" and ord = sample_order and ord'' = ?Y]
  have 2: "Amount (TotalAmount ?Y) = items_total (Items ?Y)" by blast
  from 1 have 3: "(2500 :: int64) = items_total
     (Items sample_order @
        [\<lparr>ProductID = ''p2'', Quantity = 1, Price = \<lparr>Amount = 500, Currency = ''USD''\<rparr>\<rparr>])"
    by simp
  from 2 have 4: "(0 :: int64) = items_total []" by simp
  from a r 3 4 show ?thesis by blast
qed

text \<open>
  C9. \<open>Confirm\<close> succeeds exactly on a Draft order with at least one item: on a Draft
  order without items it returns the error "cannot confirm order without items" and
  leaves the order, and so its status Draft, as it was, although \<open>CanTransitionTo\<close>
  lists Draft to Confirmed as legal without condition.
\<close>

theorem C9_confirm_needs_an_item:
  "(fst (Confirm now ord) = None \<longleftrightarrow> Status ord = OrderStatusDraft \<and> Items ord \<noteq> []) \<and>
   (Status ord = OrderStatusDraft \<and> Items ord = [] \<longrightarrow>
      Confirm now ord = (Some ''cannot confirm order without items'', ord)) \<and>
   (fst (Confirm now ord) = None \<longrightarrow> Status (snd (Confirm now ord)) = OrderStatusConfirmed) \<and>
   CanTransitionTo OrderStatusDraft OrderStatusConfirmed"
  by (simp add: Confirm_def CanTransitionTo_def)

theorem C9_confirm_needs_an_item_witness:
  "Status (sample_order\<lparr>Items := []\<rparr>) = OrderStatusDraft \<and>
   Items (sample_order\<lparr>Items := []\<rparr>) = [] \<and>
   Confirm 5 (sample_order\<lparr>Items := []\<rparr>) =
     (Some ''cannot confirm order without items'', sample_order\<lparr>Items := []\<rparr>) \<and>
   fst (Confirm 5 sample_order) = None \<and>
   Status (snd (Confirm 5 sample_order)) = OrderStatusConfirmed"
proof -
  have d: "Status (sample_order\<lparr>Items := []\<rparr>) = OrderStatusDraft \<and>
           Items (sample_order\<lparr>Items := []\<rparr>) = []"
    by (simp add: sample_order_def)
  have n: "Status sample_order = OrderStatusDraft \<and> Items sample_order \<noteq> []"
    by (simp add: sample_order_def)
  from d n C9_confirm_needs_an_item [of 5 "sample_order\<lparr>Items := []\<rparr>"]
    C9_confirm_needs_an_item [of 5 sample_order]
  show ?thesis by blast
qed

text \<open>
  How the four status methods relate to the table of \<open>CanTransitionTo\<close>: a rejected call
  leaves the order as it was; \<open>Confirm\<close>, \<open>Ship\<close> and \<open>Deliver\<close> succeed only on a
  transition of the table; \<open>Cancel\<close> succeeds on every status but Shipped and Delivered.
\<close>

lemma rejected_leaves_order:
  "fst (Confirm now ord) \<noteq> None \<Longrightarrow> snd (Confirm now ord) = ord"
  "fst (Cancel now ord) \<noteq> None \<Longrightarrow> snd (Cancel now ord) = ord"
  "fst (Ship now ord) \<noteq> None \<Longrightarrow> snd (Ship now ord) = ord"
  "fst (Deliver now ord) \<noteq> None \<Longrightarrow> snd (Deliver now ord) = ord"
  by (auto simp: Confirm_def Cancel_def Ship_def Deliver_def split: if_splits)

lemma accepted_follow_table:
  "fst (Confirm now ord) = None \<Longrightarrow> CanTransitionTo (Status ord) OrderStatusConfirmed"
  "fst (Ship now ord) = None \<Longrightarrow> CanTransitionTo (Status ord) OrderStatusShipped"
  "fst (Deliver now ord) = None \<Longrightarrow> CanTransitionTo (Status ord) OrderStatusDelivered"
  by (auto simp: Confirm_def Ship_def Deliver_def CanTransitionTo_def OrderStatus_defs
        split: if_splits)

lemma Cancel_accepts:
  "fst (Cancel now ord) = None \<longleftrightarrow>
     Status ord \<noteq> OrderStatusShipped \<and> Status ord \<noteq> OrderStatusDelivered"
  by (simp add: Cancel_def)

lemma Cancel_against_table:
  "IsValid (Status ord) \<Longrightarrow>
   fst (Cancel now ord) = None \<longleftrightarrow>
     CanTransitionTo (Status ord) OrderStatusCancelled \<or> Status ord = OrderStatusCancelled"
  by (auto simp: Cancel_def CanTransitionTo_def IsValid_def OrderStatus_defs)

text \<open>
  C3. Cancelled is terminal in the table: \<open>CanTransitionTo\<close> rejects every transition
  out of it, Cancelled to Cancelled included. \<open>Cancel\<close> on an order that is already
  cancelled nevertheless returns no error and stamps a new \<open>UpdatedAt\<close>.
\<close>

theorem C3_cancel_accepts_cancelled_order:
  "CanTransitionTo OrderStatusCancelled OrderStatusCancelled = False \<and>
   Cancel 9 (sample_order\<lparr>Status := OrderStatusCancelled\<rparr>) =
     (None, sample_order\<lparr>Status := OrderStatusCancelled, UpdatedAt := 9\<rparr>)"
  by (simp add: CanTransitionTo_def Cancel_def sample_order_def OrderStatus_defs)

text \<open>
  C5, as the specification states it, fails: an item priced in EUR is added to a Draft
  order whose item and total are in USD, and the order changes.
\<close>

theorem C5_mixed_currency_counterexample:
  "map (\<lambda>item. Currency (Price item)) (Items sample_order) = [''USD''] \<and>
   Currency (TotalAmount sample_order) = ''USD'' \<and>
   AddItem 9 ''p2'' 1 \<lparr>Amount = 300, Currency = ''EUR''\<rparr> sample_order =
     (None, sample_order
        \<lparr>Items := Items sample_order @
           [\<lparr>ProductID = ''p2'', Quantity = 1, Price = \<lparr>Amount = 300, Currency = ''EUR''\<rparr>\<rparr>],
         TotalAmount := \<lparr>Amount = 2300, Currency = ''USD''\<rparr>, UpdatedAt := 9\<rparr>)"
  by (simp add: AddItem_def sample_order_def recalculateTotal_def)

text \<open>
  C5, amended. \<open>AddItem\<close> does not look at currencies: whether it accepts an item does
  not depend on the currency of the price; on a Draft order an item with a positive
  quantity is accepted, appended as given, and the recomputed total is labelled "USD";
  and a rejected call leaves the order unchanged.
\<close>

theorem C5_AddItem_ignores_currency:
  "fst (AddItem now productID quantity (price\<lparr>Currency := c\<rparr>) ord)
     = fst (AddItem now productID quantity price ord) \<and>
   (Status ord = OrderStatusDraft \<and> 0 < sint quantity \<longrightarrow>
      fst (AddItem now productID quantity price ord) = None \<and>
      Items (snd (AddItem now productID quantity price ord)) =
        Items ord @ [\<lparr>ProductID = productID, Quantity = quantity, Price = price\<rparr>] \<and>
      Currency (TotalAmount (snd (AddItem now productID quantity price ord))) = ''USD'') \<and>
   (fst (AddItem now productID quantity price ord) \<noteq> None \<longrightarrow>
      snd (AddItem now productID quantity price ord) = ord)"
  by (simp add: AddItem_def recalculateTotal_def)

theorem C5_AddItem_ignores_currency_witness:
  "Status sample_order = OrderStatusDraft \<and> 0 < sint (1 :: int64) \<and>
   fst (AddItem 9 ''p2'' 1 \<lparr>Amount = 300, Currency = ''EUR''\<rparr> sample_order) = None \<and>
   Items (snd (AddItem 9 ''p2'' 1 \<lparr>Amount = 300, Currency = ''EUR''\<rparr> sample_order)) =
     Items sample_order @
       [\<lparr>ProductID = ''p2'', Quantity = 1, Price = \<lparr>Amount = 300, Currency = ''EUR''\<rparr>\<rparr>] \<and>
   fst (AddItem 9 ''p2'' 0 \<lparr>Amount = 300, Currency = ''EUR''\<rparr> sample_order) \<noteq> None \<and>
   snd (AddItem 9 ''p2'' 0 \<lparr>Amount = 300, Currency = ''EUR''\<rparr> sample_order) = sample_order"
proof -
  have h: "Status sample_order = OrderStatusDraft \<and> 0 < sint (1 :: int64)"
    by (simp add: sample_order_def)
  have z: "fst (AddItem 9 ''p2'' 0 \<lparr>Amount = 300, Currency = ''EUR''\<rparr> sample_order) \<noteq> None"
    by (simp add: AddItem_def sample_order_def)
  from h z
    C5_AddItem_ignores_currency
      [where now = 9 and productID = "''p2''" and quantity = 1
         and price = "\<lparr>Amount = 300, Currency = ''EUR''\<rparr>" and ord = sample_order]
    C5_AddItem_ignores_currency
      [where now = 9 and productID = "''p2''" and quantity = 0
         and price = "\<lparr>Amount = 300, Currency = ''EUR''\<rparr>" and ord = sample_order]
  show ?thesis by blast
qed

section \<open>The projection handler: replay and fetch-miss\<close>









text \<open>A fetch-miss: neither the cache nor the table has the order.\<close>

lemma GetOrder_miss:
  "no_record orderID s \<Longrightarrow>
   GetOrder io orderID s =
     (Inl (case io SelectReadModel of None \<Rightarrow> ''order not found''
           | Some err \<Rightarrow> ''failed to find order: '' @ err), s)"
  by (simp add: no_record_def GetOrder_def Let_def split: option.splits)

text \<open>
  C8. For an event of kind Confirmed, Shipped, Delivered, Cancelled, ItemAdded or
  ItemRemoved whose aggregate identity has no read-model record, the projection handler
  returns an error ("order not found" when the query itself succeeds) and leaves the
  read model as it was.
\<close>

theorem C8_fetch_miss_is_an_error:
  "is_status_kind e \<or> is_item_kind e \<Longrightarrow> no_record (AggregateID e) s \<Longrightarrow>
     fst (Handle io e s) \<noteq> None \<and> snd (Handle io e s) = s \<and>
     (io SelectReadModel = None \<longrightarrow> fst (Handle io e s) = Some ''order not found'')"
  by (cases e)
     (simp_all add: GetOrder_miss handleStatus_def
        handleOrderConfirmed_def handleOrderShipped_def handleOrderDelivered_def
        handleOrderCancelled_def handleOrderItemAdded_def handleOrderItemRemoved_def)

theorem C8_fetch_miss_is_an_error_witness:
  "is_item_kind sample_item_added \<and> no_record (AggregateID sample_item_added) empty_store \<and>
   Handle read_ok sample_item_added empty_store = (Some ''order not found'', empty_store) \<and>
   is_status_kind sample_confirmed \<and> no_record (AggregateID sample_confirmed) empty_store \<and>
   Handle read_ok sample_confirmed empty_store = (Some ''order not found'', empty_store)"
proof -
  have a: "is_item_kind sample_item_added" "no_record (AggregateID sample_item_added) empty_store"
    by (simp_all add: sample_item_added_def no_record_def empty_store_def)
  have c: "is_status_kind sample_confirmed" "no_record (AggregateID sample_confirmed) empty_store"
    by (simp_all add: sample_confirmed_def no_record_def empty_store_def)
  have r: "read_ok SelectReadModel = None" by (simp add: read_ok_def)
  from a r C8_fetch_miss_is_an_error [of sample_item_added empty_store read_ok]
  have 1: "Handle read_ok sample_item_added empty_store = (Some ''order not found'', empty_store)"
    by (simp add: prod_eq_iff)
  from c r C8_fetch_miss_is_an_error [of sample_confirmed empty_store read_ok]
  have 2: "Handle read_ok sample_confirmed empty_store = (Some ''order not found'', empty_store)"
    by (simp add: prod_eq_iff)
  from a c 1 2 show ?thesis by blast
qed

section \<open>The publisher's drain cycle\<close>

lemma MarkAsProcessed_rows:
  "outbox_events (snd (MarkAsProcessed io i db)) =
     map (\<lambda>r. if ob_ID r = i \<and> io (UpdateOutbox i) = None then r\<lparr>ob_Processed := True\<rparr> else r)
       (outbox_events db)"
  by (cases "io (UpdateOutbox i)") (simp_all add: MarkAsProcessed_def Let_def map_idI)

lemma MarkAsProcessed_frame:
  "orders (snd (MarkAsProcessed io i db)) = orders db"
  "order_items (snd (MarkAsProcessed io i db)) = order_items db"
  "events (snd (MarkAsProcessed io i db)) = events db"
  by (cases "io (UpdateOutbox i)"; simp add: MarkAsProcessed_def Let_def)+

lemma batch_loop_rows:
  "outbox_events (batch_loop io producer es db) =
     map (\<lambda>r. if ob_ID r \<in> marked io producer es then r\<lparr>ob_Processed := True\<rparr> else r)
       (outbox_events db)"
proof (induction es arbitrary: db)
  case Nil
  show ?case by (simp add: marked_def)
next
  case (Cons e es)
  have m: "marked io producer (e # es) =
      (if processEvent producer e = None \<and> io (UpdateOutbox (ob_ID e)) = None then {ob_ID e} else {})
      \<union> marked io producer es"
    by (auto simp: marked_def)
  show ?case
  proof (cases "processEvent producer e")
    case (Some err)
    then show ?thesis using Cons.IH [of db] by (simp add: m)
  next
    case None
    then show ?thesis
      using Cons.IH [of "snd (MarkAsProcessed io (ob_ID e) db)"]
      by (auto simp add: m MarkAsProcessed_rows)
  qed
qed

lemma batch_loop_frame:
  "orders (batch_loop io producer es db) = orders db \<and>
   order_items (batch_loop io producer es db) = order_items db \<and>
   events (batch_loop io producer es db) = events db"
  by (induction es arbitrary: db) (auto simp: MarkAsProcessed_frame split: option.splits)

lemma in_take_filter:
  "x \<in> set (take n xs) \<Longrightarrow> Q x \<Longrightarrow> x \<in> set (take n (filter Q xs))"
proof (induction xs arbitrary: n)
  case Nil
  then show ?case by simp
next
  case (Cons y ys)
  show ?case
  proof (cases n)
    case 0
    with Cons.prems show ?thesis by simp
  next
    case (Suc k)
    show ?thesis
    proof (cases "x = y")
      case True
      with Cons.prems Suc show ?thesis by simp
    next
      case False
      with Cons.prems Suc have "x \<in> set (take k ys)" by simp
      then have a: "x \<in> set (take k (filter Q ys))" using Cons.IH Cons.prems(2) by blast
      then have b: "x \<in> set (take (Suc k) (filter Q ys))"
        by (meson in_set_takeD set_take_subset_set_take le_SucI order_refl subsetD)
      show ?thesis using a b Suc by simp
    qed
  qed
qed


lemma processBatch_loop:
  "GetUnprocessedEvents io db = Inr batch \<Longrightarrow>
   processBatch io producer db = (None, batch_loop io producer batch db)"
  by (cases batch) (simp_all add: processBatch_def)

lemma batch_props:
  assumes "GetUnprocessedEvents io db = Inr batch"
  shows "set batch \<subseteq> {r \<in> set (outbox_events db). \<not> ob_Processed r}"
    and "sorted (map ob_CreatedAt batch)"
    and "length batch \<le> 100"
proof -
  from assms have b: "batch = take 100 (sort_key ob_CreatedAt
                 (filter (\<lambda>r. ob_Processed r = False) (outbox_events db)))"
    by (auto simp: GetUnprocessedEvents_def split: option.splits)
  show "set batch \<subseteq> {r \<in> set (outbox_events db). \<not> ob_Processed r}"
    unfolding b using set_take_subset [of 100 "sort_key ob_CreatedAt
                 (filter (\<lambda>r. ob_Processed r = False) (outbox_events db))"] by auto
  show "sorted (map ob_CreatedAt batch)"
    unfolding b sorted_map by (rule sorted_wrt_take) (rule sorted_sort_key [unfolded sorted_map])
  show "length batch \<le> 100"
    unfolding b by simp
qed

lemma processEvent_None_iff:
  "processEvent producer r = None \<longleftrightarrow>
     (\<exists>event. parseEvent (ob_EventType r) (ob_EventData r) = Inr event \<and>
              producer (Publish_message event) = Delivered)"
  by (auto simp: processEvent_def Publish_def split: sum.splits ProduceResult.splits)

lemma marked_unique:
  assumes pk: "distinct (map ob_ID rows)" and sub: "set es \<subseteq> set rows" and r: "r \<in> set rows"
  shows "ob_ID r \<in> marked io producer es \<longleftrightarrow>
           r \<in> set es \<and> processEvent producer r = None \<and> io (UpdateOutbox (ob_ID r)) = None"
proof -
  have inj: "inj_on ob_ID (set rows)" using pk by (simp add: distinct_map)
  show ?thesis
  proof
    assume "ob_ID r \<in> marked io producer es"
    then obtain e where e: "e \<in> set es" "ob_ID e = ob_ID r" "processEvent producer e = None"
        "io (UpdateOutbox (ob_ID e)) = None"
      by (auto simp: marked_def)
    with sub r inj have "e = r" by (auto simp: inj_on_def)
    with e show "r \<in> set es \<and> processEvent producer r = None \<and> io (UpdateOutbox (ob_ID r)) = None"
      by simp
  next
    assume "r \<in> set es \<and> processEvent producer r = None \<and> io (UpdateOutbox (ob_ID r)) = None"
    then show "ob_ID r \<in> marked io producer es" by (auto simp: marked_def)
  qed
qed

lemma only_delivered_are_flipped:
  assumes pk: "distinct (map ob_ID (outbox_events db))"
      and q: "GetUnprocessedEvents io db = Inr batch"
      and r: "r \<in> set (outbox_events db)" "\<not> ob_Processed r"
      and r': "r' \<in> set (outbox_events (snd (processBatch io producer db)))"
              "ob_ID r' = ob_ID r" "ob_Processed r'"
  shows "r \<in> set batch \<and> processEvent producer r = None"
proof -
  have inj: "inj_on ob_ID (set (outbox_events db))" using pk by (simp add: distinct_map)
  have sub: "set batch \<subseteq> set (outbox_events db)" using batch_props(1) [OF q] by auto
  from r'(1) obtain r0 where r0: "r0 \<in> set (outbox_events db)"
      "r' = (if ob_ID r0 \<in> marked io producer batch then r0\<lparr>ob_Processed := True\<rparr> else r0)"
    by (auto simp: processBatch_loop [OF q] batch_loop_rows)
  then have "ob_ID r0 = ob_ID r" using r'(2) by (auto split: if_splits)
  with inj r0(1) r(1) have "r0 = r" by (simp add: inj_on_def)
  with r0(2) r(2) r'(3) have "ob_ID r \<in> marked io producer batch" by (auto split: if_splits)
  then show ?thesis using marked_unique [OF pk sub r(1)] by simp
qed

lemma unmarked_stays:
  assumes pk: "distinct (map ob_ID (outbox_events db))"
      and q: "GetUnprocessedEvents io db = Inr batch"
      and r: "r \<in> set batch"
             "processEvent producer r \<noteq> None \<or> io (UpdateOutbox (ob_ID r)) \<noteq> None"
  shows "r \<in> set (outbox_events (snd (processBatch io producer db)))"
    and "GetUnprocessedEvents io (snd (processBatch io producer db)) = Inr next \<Longrightarrow> r \<in> set next"
proof -
  let ?rows = "outbox_events db"
  let ?M = "marked io producer batch"
  let ?g = "\<lambda>r. if ob_ID r \<in> ?M then r\<lparr>ob_Processed := True\<rparr> else r"
  have sub: "set batch \<subseteq> set ?rows" using batch_props(1) [OF q] by auto
  have rows': "outbox_events (snd (processBatch io producer db)) = map ?g ?rows"
    by (simp add: processBatch_loop [OF q] batch_loop_rows)
  have notM: "ob_ID r \<notin> ?M"
    using marked_unique [OF pk sub, of r io producer] r sub by auto
  then have "?g r = r" by simp
  moreover have "r \<in> set ?rows" using r(1) sub by auto
  ultimately have "r \<in> ?g ` set ?rows" by (rule image_eqI [where x = r, OF sym])
  then show "r \<in> set (outbox_events (snd (processBatch io producer db)))"
    unfolding rows' by simp
  assume n: "GetUnprocessedEvents io (snd (processBatch io producer db)) = Inr next"
  have f: "filter (\<lambda>r. ob_Processed r = False) (map ?g xs)
         = filter (\<lambda>r. ob_ID r \<notin> ?M) (filter (\<lambda>r. ob_Processed r = False) xs)" for xs :: "OutboxEvent list"
    by (induction xs) simp_all
  from q have b: "batch = take 100 (sort_key ob_CreatedAt (filter (\<lambda>r. ob_Processed r = False) ?rows))"
    by (auto simp: GetUnprocessedEvents_def split: option.splits)
  from n have "next = take 100 (sort_key ob_CreatedAt (filter (\<lambda>r. ob_Processed r = False) (map ?g ?rows)))"
    by (auto simp: GetUnprocessedEvents_def rows' split: option.splits)
  then have "next = take 100 (filter (\<lambda>r. ob_ID r \<notin> ?M)
                 (sort_key ob_CreatedAt (filter (\<lambda>r. ob_Processed r = False) ?rows)))"
    by (simp only: f filter_sort)
  moreover have "r \<in> set (take 100 (filter (\<lambda>r. ob_ID r \<notin> ?M)
                 (sort_key ob_CreatedAt (filter (\<lambda>r. ob_Processed r = False) ?rows))))"
    by (rule in_take_filter) (use r(1) notM b in simp_all)
  ultimately show "r \<in> set next" by simp
qed

lemma batch_loop_ids:
  "map ob_ID (outbox_events (batch_loop io producer es db)) = map ob_ID (outbox_events db)"
  by (simp add: batch_loop_rows o_def if_distrib [of ob_ID] cong: if_cong)

text \<open>
  C6. In a drain cycle whose query succeeds (the identifiers of the outbox being
  distinct, as its primary key makes them), the batch holds only unprocessed entries of
  the outbox, in the order of their creation times, at most 100 of them. The cycle keeps
  every entry of the outbox. An entry goes from unprocessed to processed only if it was
  in the batch and its event was parsed and delivered. An entry of the batch whose
  delivery fails, or whose marking fails after a delivery, stays as it was, unprocessed,
  and is again in the batch of the next cycle.
\<close>

theorem C6_drain_cycle:
  assumes "distinct (map ob_ID (outbox_events db))"
      and "GetUnprocessedEvents io db = Inr batch"
      and "db' = snd (processBatch io producer db)"
  shows "(\<forall>r \<in> set batch. r \<in> set (outbox_events db) \<and> \<not> ob_Processed r) \<and>
         sorted (map ob_CreatedAt batch) \<and>
         length batch \<le> 100 \<and>
         map ob_ID (outbox_events db') = map ob_ID (outbox_events db) \<and>
         (\<forall>r \<in> set (outbox_events db). \<forall>r' \<in> set (outbox_events db').
            ob_ID r' = ob_ID r \<and> \<not> ob_Processed r \<and> ob_Processed r' \<longrightarrow>
              r \<in> set batch \<and>
              (\<exists>event. parseEvent (ob_EventType r) (ob_EventData r) = Inr event \<and>
                       producer (Publish_message event) = Delivered)) \<and>
         (\<forall>r \<in> set batch.
            processEvent producer r \<noteq> None \<or> io (UpdateOutbox (ob_ID r)) \<noteq> None \<longrightarrow>
              r \<in> set (outbox_events db') \<and>
              (\<forall>next. GetUnprocessedEvents io db' = Inr next \<longrightarrow> r \<in> set next))"
proof (intro conjI ballI impI allI)
  fix r assume "r \<in> set batch"
  then show "r \<in> set (outbox_events db)" and "\<not> ob_Processed r"
    using batch_props(1) [OF assms(2)] by auto
next
  show "sorted (map ob_CreatedAt batch)" by (rule batch_props(2) [OF assms(2)])
next
  show "length batch \<le> 100" by (rule batch_props(3) [OF assms(2)])
next
  show "map ob_ID (outbox_events db') = map ob_ID (outbox_events db)"
    by (simp add: assms(3) processBatch_loop [OF assms(2)] batch_loop_ids)
next
  fix r r'
  assume r: "r \<in> set (outbox_events db)" and r': "r' \<in> set (outbox_events db')"
    and f: "ob_ID r' = ob_ID r \<and> \<not> ob_Processed r \<and> ob_Processed r'"
  have d: "r \<in> set batch \<and> processEvent producer r = None"
    by (rule only_delivered_are_flipped [OF assms(1) assms(2) r _ r' [unfolded assms(3)]])
       (use f in simp_all)
  from d show "r \<in> set batch" by simp
  from d show "\<exists>event. parseEvent (ob_EventType r) (ob_EventData r) = Inr event \<and>
                 producer (Publish_message event) = Delivered"
    by (simp add: processEvent_None_iff)
next
  fix r
  assume r: "r \<in> set batch"
    and u: "processEvent producer r \<noteq> None \<or> io (UpdateOutbox (ob_ID r)) \<noteq> None"
  show "r \<in> set (outbox_events db')"
    unfolding assms(3) by (rule unmarked_stays(1) [OF assms(1) assms(2) r u])
  fix "next" assume "GetUnprocessedEvents io db' = Inr next"
  then show "r \<in> set next"
    unfolding assms(3) by (rule unmarked_stays(2) [OF assms(1) assms(2) r u])
qed

theorem C6_drain_cycle_witness:
  "distinct (map ob_ID (outbox_events outbox_db)) \<and>
   GetUnprocessedEvents write_ok outbox_db = Inr [entry_unknown, entry_confirmed] \<and>
   outbox_events (snd (processBatch write_ok delivering outbox_db)) =
     [entry_confirmed\<lparr>ob_Processed := True\<rparr>, entry_unknown] \<and>
   sorted (map ob_CreatedAt [entry_unknown, entry_confirmed]) \<and>
   processEvent delivering entry_unknown \<noteq> None \<and>
   entry_unknown \<in> set (outbox_events (snd (processBatch write_ok delivering outbox_db))) \<and>
   (\<exists>event. parseEvent (ob_EventType entry_confirmed) (ob_EventData entry_confirmed) = Inr event \<and>
            delivering (Publish_message event) = Delivered)"
proof -
  have pk: "distinct (map ob_ID (outbox_events outbox_db))"
    by (simp add: outbox_db_def entry_confirmed_def entry_unknown_def)
  have q: "GetUnprocessedEvents write_ok outbox_db = Inr [entry_unknown, entry_confirmed]"
    by (simp add: GetUnprocessedEvents_def write_ok_def outbox_db_def entry_confirmed_def
          entry_unknown_def)
  have pe: "processEvent delivering entry_unknown = Some ''unknown event type: OrderArchived''"
    by (simp add: processEvent_def parseEvent_def entry_unknown_def)
  then have pu: "processEvent delivering entry_unknown \<noteq> None" by simp
  have pc: "processEvent delivering entry_confirmed = None"
    by (simp add: processEvent_def parseEvent_def entry_confirmed_def Publish_def delivering_def)
  have rows: "outbox_events (snd (processBatch write_ok delivering outbox_db)) =
     [entry_confirmed\<lparr>ob_Processed := True\<rparr>, entry_unknown]"
    by (simp add: processBatch_loop [OF q] pe pc MarkAsProcessed_rows)
       (simp add: write_ok_def outbox_db_def entry_confirmed_def entry_unknown_def)
  note c = C6_drain_cycle [OF pk q refl, of delivering]
  have s: "sorted (map ob_CreatedAt [entry_unknown, entry_confirmed])"
    using c by blast
  have u: "entry_unknown \<in> set (outbox_events (snd (processBatch write_ok delivering outbox_db)))"
    using c pu by simp
  have "entry_confirmed \<in> set (outbox_events outbox_db)"
    "entry_confirmed\<lparr>ob_Processed := True\<rparr>
       \<in> set (outbox_events (snd (processBatch write_ok delivering outbox_db)))"
    "ob_ID (entry_confirmed\<lparr>ob_Processed := True\<rparr>) = ob_ID entry_confirmed \<and>
     \<not> ob_Processed entry_confirmed \<and> ob_Processed (entry_confirmed\<lparr>ob_Processed := True\<rparr>)"
    by (simp_all add: rows) (simp_all add: outbox_db_def entry_confirmed_def)
  with c have d: "\<exists>event. parseEvent (ob_EventType entry_confirmed) (ob_EventData entry_confirmed)
                     = Inr event \<and> delivering (Publish_message event) = Delivered"
    by blast
  from pk q rows s pu u d show ?thesis by blast
qed

section \<open>The command service: event store, outbox and order table\<close>

lemma insert_items_frame:
  "events (snd (insert_items io oid i items db)) = events db \<and>
   outbox_events (snd (insert_items io oid i items db)) = outbox_events db \<and>
   orders (snd (insert_items io oid i items db)) = orders db"
  by (induction items arbitrary: i db) (auto split: option.splits)

lemma Save_frame:
  "events (snd (Save io ord db)) = events db \<and>
   outbox_events (snd (Save io ord db)) = outbox_events db"
  by (cases "io UpsertOrder"; cases "io DeleteOrderItems")
     (simp_all add: Save_def saveOrderItems_def Let_def insert_items_frame)

lemma SaveEvent_frame:
  "events (snd (SaveEvent io uuid now e db)) = events db \<and>
   orders (snd (SaveEvent io uuid now e db)) = orders db \<and>
   order_items (snd (SaveEvent io uuid now e db)) = order_items db"
  by (cases "io InsertOutbox") (simp_all add: SaveEvent_def)

lemma SaveEvents_frame:
  "orders (snd (SaveEvents io a es v db)) = orders db \<and>
   order_items (snd (SaveEvents io a es v db)) = order_items db \<and>
   outbox_events (snd (SaveEvents io a es v db)) = outbox_events db"
  by (simp add: SaveEvents_def split: option.splits sum.splits)

lemma SaveEvents_created:
  "SaveEvents io (ID ord) [NewOrderCreatedEvent now ord] 0 db = (None, db') \<Longrightarrow>
   events db' = events db @ [created_row now ord] \<and>
   \<not> (\<exists>r \<in> set (events db). ev_aggregate_id r = ID ord \<and> ev_version r = 1)"
  by (auto simp: SaveEvents_def created_row_def Let_def Type_def OccurredAt_def
        NewOrderCreatedEvent_def split: option.splits if_splits)

lemma SaveEvents_error:
  "SaveEvents io a es v db = (Some err, db') \<Longrightarrow> db' = db"
  by (auto simp: SaveEvents_def split: option.splits sum.splits)

lemma load_apply_save_events:
  "events (snd (load_apply_save env orderID method prefix mk_event db)) = events db"
proof (cases "FindByID (env_io env) orderID db")
  case (Inl err)
  then show ?thesis by (simp add: load_apply_save_def)
next
  case (Inr ord)
  obtain e0 ord' where m: "method ord = (e0, ord')" by (cases "method ord")
  obtain e1 db1 where u: "Update (env_io env) ord' db = (e1, db1)"
    by (cases "Update (env_io env) ord' db")
  obtain e2 db2 where
    o: "SaveEvent (env_io env) (env_outbox_uuid env) (env_now env) (mk_event ord') db1 = (e2, db2)"
    by (cases "SaveEvent (env_io env) (env_outbox_uuid env) (env_now env) (mk_event ord') db1")
  have 1: "events db1 = events db"
    using Save_frame [of "env_io env" ord' db] u by (simp add: Update_def)
  have 2: "events db2 = events db1"
    using SaveEvent_frame [of "env_io env" "env_outbox_uuid env" "env_now env" "mk_event ord'" db1] o
    by simp
  show ?thesis
    by (cases e0; cases e1; cases e2) (simp_all add: load_apply_save_def Inr m u o 1 2)
qed

lemma add_items_ID: "add_items now items ord = Inr ord' \<Longrightarrow> ID ord' = ID ord"
proof (induction items arbitrary: ord)
  case Nil
  then show ?case by simp
next
  case (Cons item rest)
  obtain e ord1 where a: "AddItem now (cmd_ProductID item) (cmd_Quantity item) (cmd_Price item) ord = (e, ord1)"
    by (cases "AddItem now (cmd_ProductID item) (cmd_Quantity item) (cmd_Price item) ord")
  then have "ID ord1 = ID ord"
    by (auto simp: AddItem_def recalculateTotal_def split: if_splits)
  with Cons a show ?case by (cases e) auto
qed

lemma SaveEvent_result:
  "SaveEvent io uuid now e db = (err, db') \<Longrightarrow>
   (err \<noteq> None \<longrightarrow> db' = db) \<and>
   (err = None \<longrightarrow>
      outbox_events db' = outbox_events db @
        [\<lparr>ob_ID = uuid, ob_EventType = Type e, ob_EventData = e, ob_CreatedAt = now,
          ob_Processed = False\<rparr>])"
  by (cases "io InsertOutbox") (auto simp: SaveEvent_def split: if_splits)

text \<open>
  The event store after \<open>CreateOrder\<close>: unchanged, and then the call did not succeed, or
  longer by the Created row of the new order at version 1, which no row had before.
\<close>

lemma CreateOrder_cases:
  obtains (unchanged) "events (snd (CommandService_CreateOrder env cmd db)) = events db"
      "\<forall>ord. fst (CommandService_CreateOrder env cmd db) \<noteq> Inr ord"
    | (appended) ord where "ID ord = env_order_uuid env"
      "events (snd (CommandService_CreateOrder env cmd db)) = events db @ [created_row (env_now env) ord]"
      "\<not> (\<exists>r \<in> set (events db). ev_aggregate_id r = ID ord \<and> ev_version r = 1)"
      "\<forall>ord'. fst (CommandService_CreateOrder env cmd db) = Inr ord' \<longrightarrow> ord' = ord"
proof (cases "CreateOrderCommand_Validate (env_TrimSpace env) cmd")
  case (Some err)
  then show ?thesis using unchanged by (simp add: CommandService_CreateOrder_def)
next
  case None
  note v = this
  show ?thesis
  proof (cases "add_items (env_now env) (cmd_Items cmd)
             (NewOrder (env_order_uuid env) (env_now env) (env_now env)
                (cmd_CustomerID cmd) (cmd_ShippingAddress cmd))")
    case (Inl err)
    then show ?thesis using unchanged v by (simp add: CommandService_CreateOrder_def)
  next
    case (Inr ord)
    have id: "ID ord = env_order_uuid env"
      using add_items_ID [OF Inr] by (simp add: NewOrder_def)
    obtain e1 db1 where s: "Save (env_io env) ord db = (e1, db1)"
      by (cases "Save (env_io env) ord db")
    have 1: "events db1 = events db" using Save_frame [of "env_io env" ord db] s by simp
    obtain e2 db2 where
      es: "SaveEvents (env_io env) (ID ord) [NewOrderCreatedEvent (env_now env) ord] 0 db1 = (e2, db2)"
      by (cases "SaveEvents (env_io env) (ID ord) [NewOrderCreatedEvent (env_now env) ord] 0 db1")
    obtain e3 db3 where
      o: "SaveEvent (env_io env) (env_outbox_uuid env) (env_now env)
            (NewOrderCreatedEvent (env_now env) ord) db2 = (e3, db3)"
      by (cases "SaveEvent (env_io env) (env_outbox_uuid env) (env_now env)
            (NewOrderCreatedEvent (env_now env) ord) db2")
    have 3: "events db3 = events db2"
      using SaveEvent_frame [of "env_io env" "env_outbox_uuid env" "env_now env"
          "NewOrderCreatedEvent (env_now env) ord" db2] o by simp
    show ?thesis
    proof (cases e1)
      case (Some err)
      then show ?thesis using unchanged v Inr s 1
        by (simp add: CommandService_CreateOrder_def)
    next
      case None
      note e1 = this
      show ?thesis
      proof (cases e2)
        case (Some err)
        with es have "db2 = db1" by (simp add: SaveEvents_error)
        then show ?thesis using unchanged v Inr s 1 e1 es Some
          by (simp add: CommandService_CreateOrder_def Let_def)
      next
        case None
        with es have 2: "events db2 = events db1 @ [created_row (env_now env) ord]"
          and f: "\<not> (\<exists>r \<in> set (events db1). ev_aggregate_id r = ID ord \<and> ev_version r = 1)"
          using SaveEvents_created [of "env_io env" ord "env_now env" db1 db2] by simp_all
        have res: "CommandService_CreateOrder env cmd db =
            ((case e3 of Some err \<Rightarrow> Inl (''failed to save event to outbox: '' @ err)
              | None \<Rightarrow> Inr ord), db3)"
          by (cases e3) (simp_all add: CommandService_CreateOrder_def Let_def v Inr s e1 es None o)
        show ?thesis
        proof (rule appended [of ord])
          show "ID ord = env_order_uuid env" by (rule id)
          show "events (snd (CommandService_CreateOrder env cmd db))
                  = events db @ [created_row (env_now env) ord]"
            by (simp add: res 1 2 3)
          show "\<not> (\<exists>r \<in> set (events db). ev_aggregate_id r = ID ord \<and> ev_version r = 1)"
            using f by (simp add: 1)
          show "\<forall>ord'. fst (CommandService_CreateOrder env cmd db) = Inr ord' \<longrightarrow> ord' = ord"
            by (cases e3) (simp_all add: res)
        qed
      qed
    qed
  qed
qed

text \<open>
  What holds of the event store at all times: every row is a Created event at version 1,
  and no two rows are of the same aggregate.
\<close>

lemma exec_keeps_created_only:
  assumes "\<forall>r \<in> set (events db). ev_event_type r = ''OrderCreated'' \<and> ev_version r = 1"
      and "distinct (map ev_aggregate_id (events db))"
  shows "(\<forall>r \<in> set (events (exec env c db)). ev_event_type r = ''OrderCreated'' \<and> ev_version r = 1)
         \<and> distinct (map ev_aggregate_id (events (exec env c db)))"
proof (cases c)
  case (CmdCreateOrder cmd)
  show ?thesis
  proof (cases rule: CreateOrder_cases [of env cmd db])
    case unchanged
    then show ?thesis using assms CmdCreateOrder by simp
  next
    case (appended ord)
    from appended(3) assms(1) have "ID ord \<notin> ev_aggregate_id ` set (events db)" by auto
    then show ?thesis using assms CmdCreateOrder appended(2) by (simp add: created_row_def)
  qed
next
  case (CmdConfirmOrder orderID)
  then show ?thesis using assms
    by (simp add: CommandService_ConfirmOrder_def load_apply_save_events)
next
  case (CmdCancelOrder orderID reason)
  then show ?thesis using assms
    by (simp add: CommandService_CancelOrder_def load_apply_save_events)
next
  case (CmdAddOrderItem orderID productID quantity price)
  then show ?thesis using assms
    by (simp add: CommandService_AddOrderItem_def load_apply_save_events)
next
  case (CmdRemoveOrderItem orderID productID)
  then show ?thesis using assms
    by (simp add: CommandService_RemoveOrderItem_def load_apply_save_events)
qed

lemma run_keeps_created_only:
  assumes "\<forall>r \<in> set (events db). ev_event_type r = ''OrderCreated'' \<and> ev_version r = 1"
      and "distinct (map ev_aggregate_id (events db))"
  shows "(\<forall>r \<in> set (events (run calls db)). ev_event_type r = ''OrderCreated'' \<and> ev_version r = 1)
         \<and> distinct (map ev_aggregate_id (events (run calls db)))"
  using assms
proof (induction calls arbitrary: db)
  case Nil
  then show ?case by simp
next
  case (Cons call calls)
  obtain env c where call: "call = (env, c)" by (cases call)
  from exec_keeps_created_only [OF Cons.prems, of env c]
  show ?case unfolding call run.simps by (intro Cons.IH) simp_all
qed

text \<open>A successful call of one of the four other commands adds one entry to the outbox.\<close>

lemma load_apply_save_outbox:
  assumes "load_apply_save env orderID method prefix mk_event db = (None, db')"
  shows "\<exists>ord. outbox_events db' = outbox_events db @
           [\<lparr>ob_ID = env_outbox_uuid env, ob_EventType = Type (mk_event ord),
             ob_EventData = mk_event ord, ob_CreatedAt = env_now env, ob_Processed = False\<rparr>]"
proof (cases "FindByID (env_io env) orderID db")
  case (Inl err)
  with assms show ?thesis by (simp add: load_apply_save_def)
next
  case (Inr ord)
  obtain e0 ord' where m: "method ord = (e0, ord')" by (cases "method ord")
  obtain e1 db1 where u: "Update (env_io env) ord' db = (e1, db1)"
    by (cases "Update (env_io env) ord' db")
  obtain e2 db2 where
    o: "SaveEvent (env_io env) (env_outbox_uuid env) (env_now env) (mk_event ord') db1 = (e2, db2)"
    by (cases "SaveEvent (env_io env) (env_outbox_uuid env) (env_now env) (mk_event ord') db1")
  have 1: "outbox_events db1 = outbox_events db"
    using Save_frame [of "env_io env" ord' db] u by (simp add: Update_def)
  from assms have "e0 = None \<and> e1 = None \<and> e2 = None \<and> db' = db2"
    by (cases e0; cases e1; cases e2) (simp_all add: load_apply_save_def Inr m u o)
  with SaveEvent_result [OF o] 1 show ?thesis by auto
qed

lemma load_apply_save_outbox_typed:
  assumes "fst (load_apply_save env orderID method prefix mk_event db) = None"
      and "\<And>ord. Type (mk_event ord) = eventType"
  shows "\<exists>row. outbox_events (snd (load_apply_save env orderID method prefix mk_event db))
                 = outbox_events db @ [row] \<and> ob_EventType row = eventType"
proof -
  obtain db' where "load_apply_save env orderID method prefix mk_event db = (None, db')"
    using assms(1) by (cases "load_apply_save env orderID method prefix mk_event db") simp
  from load_apply_save_outbox [OF this] this assms(2) show ?thesis by auto
qed

text \<open>When no statement fails, a command fails only in its lookup or in the aggregate.\<close>

lemma insert_items_ok:
  "fst (insert_items (\<lambda>stmt. None) orderID i items db) = None"
  by (induction items arbitrary: i db) simp_all

lemma Save_ok: "fst (Save (\<lambda>stmt. None) ord db) = None"
  by (simp add: Save_def saveOrderItems_def Let_def insert_items_ok)

lemma load_apply_save_ok:
  assumes io: "env_io env = (\<lambda>stmt. None)"
      and f: "FindByID (env_io env) orderID db = Inr ord"
      and m: "method ord = (None, ord')"
      and n: "env_outbox_uuid env \<notin> ob_ID ` set (outbox_events db)"
  shows "fst (load_apply_save env orderID method prefix mk_event db) = None"
proof -
  obtain e1 db1 where u: "Update (env_io env) ord' db = (e1, db1)"
    by (cases "Update (env_io env) ord' db")
  have e1: "e1 = None" using Save_ok [of ord' db] u by (simp add: Update_def io)
  have 1: "outbox_events db1 = outbox_events db"
    using Save_frame [of "env_io env" ord' db] u by (simp add: Update_def)
  have o: "fst (SaveEvent (env_io env) (env_outbox_uuid env) (env_now env) (mk_event ord') db1) = None"
    using n by (simp add: SaveEvent_def io 1)
  obtain e2 db2 where
    o2: "SaveEvent (env_io env) (env_outbox_uuid env) (env_now env) (mk_event ord') db1 = (e2, db2)"
    by (cases "SaveEvent (env_io env) (env_outbox_uuid env) (env_now env) (mk_event ord') db1")
  with o have "e2 = None" by simp
  then show ?thesis by (simp add: load_apply_save_def f m u e1 o2)
qed

text \<open>The scenario: creating the sample order on an empty database.\<close>

lemma create_sample:
  "CommandService_CreateOrder sample_env sample_cmd empty_db = (Inr sample_order, sample_db)"
proof -
  have v: "CreateOrderCommand_Validate trim_spaces sample_cmd = None"
    by (simp add: CreateOrderCommand_Validate_def sample_cmd_def Address_Validate_def
          sample_address_def trim_spaces_def unicode_spaces_def OrderItemCommand_Validate_def
          Money_Validate_def)
  have a: "add_items 10 (cmd_Items sample_cmd)
             (NewOrder ''o1'' 10 10 (cmd_CustomerID sample_cmd) (cmd_ShippingAddress sample_cmd))
           = Inr sample_order"
    by (simp add: sample_cmd_def NewOrder_def AddItem_def recalculateTotal_def sample_order_def
          Money_zero_def)
  have s: "Save (\<lambda>stmt. None) sample_order empty_db =
             (None, sample_db\<lparr>events := [], outbox_events := []\<rparr>)"
    by (simp add: Save_def saveOrderItems_def Let_def sample_order_def empty_db_def sample_db_def
          OrderStatusDraft_def)
  have e: "SaveEvents (\<lambda>stmt. None) (ID sample_order) [NewOrderCreatedEvent 10 sample_order] 0
             (sample_db\<lparr>events := [], outbox_events := []\<rparr>)
           = (None, sample_db\<lparr>outbox_events := []\<rparr>)"
    by (simp add: SaveEvents_def Let_def created_row_def sample_db_def Type_def OccurredAt_def
          NewOrderCreatedEvent_def)
  have o: "SaveEvent (\<lambda>stmt. None) ''e1'' 10 (NewOrderCreatedEvent 10 sample_order)
             (sample_db\<lparr>outbox_events := []\<rparr>) = (None, sample_db)"
    by (simp add: SaveEvent_def sample_db_def sample_created_def Type_def NewOrderCreatedEvent_def)
  show ?thesis
    by (simp add: CommandService_CreateOrder_def sample_env_def v a s e o Let_def)
qed

text \<open>
  C10. A successful \<open>CreateOrder\<close> appends to the event store the Created row of the new
  order, at version 1. \<open>ConfirmOrder\<close>, \<open>CancelOrder\<close>, \<open>AddOrderItem\<close> and
  \<open>RemoveOrderItem\<close> leave the event store as it was, whatever their outcome, and on
  success add their one event to the outbox. So, after any run of calls from the empty
  database, every row of the event store is a Created event at version 1 and no
  aggregate has two rows.
\<close>

theorem C10_event_store_holds_created_only:
  "(CommandService_CreateOrder env cmd db = (Inr ord, db') \<longrightarrow>
      events db' = events db @ [created_row (env_now env) ord]) \<and>
   events (snd (CommandService_ConfirmOrder env orderID db)) = events db \<and>
   events (snd (CommandService_CancelOrder env orderID reason db)) = events db \<and>
   events (snd (CommandService_AddOrderItem env orderID productID quantity price db)) = events db \<and>
   events (snd (CommandService_RemoveOrderItem env orderID productID db)) = events db \<and>
   (fst (CommandService_ConfirmOrder env orderID db) = None \<longrightarrow>
      (\<exists>row. outbox_events (snd (CommandService_ConfirmOrder env orderID db))
                = outbox_events db @ [row] \<and> ob_EventType row = ''OrderConfirmed'')) \<and>
   (fst (CommandService_CancelOrder env orderID reason db) = None \<longrightarrow>
      (\<exists>row. outbox_events (snd (CommandService_CancelOrder env orderID reason db))
                = outbox_events db @ [row] \<and> ob_EventType row = ''OrderCancelled'')) \<and>
   (fst (CommandService_AddOrderItem env orderID productID quantity price db) = None \<longrightarrow>
      (\<exists>row. outbox_events (snd (CommandService_AddOrderItem env orderID productID quantity price db))
                = outbox_events db @ [row] \<and> ob_EventType row = ''OrderItemAdded'')) \<and>
   (fst (CommandService_RemoveOrderItem env orderID productID db) = None \<longrightarrow>
      (\<exists>row. outbox_events (snd (CommandService_RemoveOrderItem env orderID productID db))
                = outbox_events db @ [row] \<and> ob_EventType row = ''OrderItemRemoved'')) \<and>
   (\<forall>r \<in> set (events (run calls empty_db)).
      ev_event_type r = ''OrderCreated'' \<and> ev_version r = 1) \<and>
   distinct (map ev_aggregate_id (events (run calls empty_db)))"
proof -
  have create: "events db' = events db @ [created_row (env_now env) ord]"
    if c: "CommandService_CreateOrder env cmd db = (Inr ord, db')"
  proof (cases rule: CreateOrder_cases [of env cmd db])
    case unchanged
    with c show ?thesis by simp
  next
    case (appended ord0)
    with c show ?thesis by simp
  qed
  have inv: "(\<forall>r \<in> set (events (run calls empty_db)).
      ev_event_type r = ''OrderCreated'' \<and> ev_version r = 1) \<and>
      distinct (map ev_aggregate_id (events (run calls empty_db)))"
    by (rule run_keeps_created_only) (simp_all add: empty_db_def)
  have t: "Type (NewOrderConfirmedEvent now ord) = ''OrderConfirmed''"
    "Type (NewOrderCancelledEvent now ord reason) = ''OrderCancelled''"
    "Type (NewOrderItemAddedEvent now ord productID quantity price) = ''OrderItemAdded''"
    "Type (NewOrderItemRemovedEvent now ord productID) = ''OrderItemRemoved''"
    for now ord
    by (simp_all add: Type_def NewOrderConfirmedEvent_def NewOrderCancelledEvent_def
          NewOrderItemAddedEvent_def NewOrderItemRemovedEvent_def)
  show ?thesis
    using create inv
    by (intro conjI impI)
       (simp_all add: CommandService_ConfirmOrder_def CommandService_CancelOrder_def
          CommandService_AddOrderItem_def CommandService_RemoveOrderItem_def
          load_apply_save_events load_apply_save_outbox_typed t)
qed

theorem C10_event_store_holds_created_only_witness:
  "CommandService_CreateOrder sample_env sample_cmd empty_db = (Inr sample_order, sample_db) \<and>
   events sample_db = events empty_db @ [created_row (env_now sample_env) sample_order] \<and>
   fst (CommandService_ConfirmOrder confirm_env ''o1'' sample_db) = None \<and>
   events (snd (CommandService_ConfirmOrder confirm_env ''o1'' sample_db)) = events sample_db \<and>
   (\<exists>row. outbox_events (snd (CommandService_ConfirmOrder confirm_env ''o1'' sample_db))
             = outbox_events sample_db @ [row] \<and> ob_EventType row = ''OrderConfirmed'') \<and>
   events (run [(sample_env, CmdCreateOrder sample_cmd),
                (confirm_env, CmdConfirmOrder ''o1'')] empty_db) = [created_row 10 sample_order] \<and>
   ev_event_type (created_row 10 sample_order) = ''OrderCreated'' \<and>
   ev_version (created_row 10 sample_order) = 1 \<and>
   map ob_EventType (outbox_events (snd (CommandService_ConfirmOrder confirm_env ''o1'' sample_db)))
     = [''OrderCreated'', ''OrderConfirmed''] \<and>
   fst (CommandService_CancelOrder confirm_env ''o1'' ''changed mind'' sample_db) = None \<and>
   events (snd (CommandService_CancelOrder confirm_env ''o1'' ''changed mind'' sample_db))
     = events sample_db \<and>
   map ob_EventType
     (outbox_events (snd (CommandService_CancelOrder confirm_env ''o1'' ''changed mind'' sample_db)))
     = [''OrderCreated'', ''OrderCancelled''] \<and>
   fst (CommandService_AddOrderItem confirm_env ''o1'' ''p2'' 1
          \<lparr>Amount = 500, Currency = ''USD''\<rparr> sample_db) = None \<and>
   events (snd (CommandService_AddOrderItem confirm_env ''o1'' ''p2'' 1
          \<lparr>Amount = 500, Currency = ''USD''\<rparr> sample_db)) = events sample_db \<and>
   map ob_EventType
     (outbox_events (snd (CommandService_AddOrderItem confirm_env ''o1'' ''p2'' 1
          \<lparr>Amount = 500, Currency = ''USD''\<rparr> sample_db)))
     = [''OrderCreated'', ''OrderItemAdded''] \<and>
   fst (CommandService_RemoveOrderItem confirm_env ''o1'' ''p1'' sample_db) = None \<and>
   events (snd (CommandService_RemoveOrderItem confirm_env ''o1'' ''p1'' sample_db))
     = events sample_db \<and>
   map ob_EventType
     (outbox_events (snd (CommandService_RemoveOrderItem confirm_env ''o1'' ''p1'' sample_db)))
     = [''OrderCreated'', ''OrderItemRemoved'']"
proof -
  have io: "env_io confirm_env = (\<lambda>stmt. None)"
    by (simp add: confirm_env_def sample_env_def)
  have f: "FindByID (env_io confirm_env) ''o1'' sample_db = Inr sample_order"
    by (simp add: io FindByID_def findOrderItems_def sample_db_def sample_order_def
          OrderStatusDraft_def)
  have n: "env_outbox_uuid confirm_env \<notin> ob_ID ` set (outbox_events sample_db)"
    by (simp add: confirm_env_def sample_env_def sample_db_def)
  have ot: "map ob_EventType (outbox_events sample_db) = [''OrderCreated'']"
    by (simp add: sample_db_def)
  have m1: "Confirm (env_now confirm_env) sample_order
              = (None, snd (Confirm (env_now confirm_env) sample_order))"
    by (simp add: Confirm_def sample_order_def)
  have m2: "Cancel (env_now confirm_env) sample_order
              = (None, snd (Cancel (env_now confirm_env) sample_order))"
    by (simp add: Cancel_def sample_order_def OrderStatus_defs)
  have m3: "AddItem (env_now confirm_env) ''p2'' 1 \<lparr>Amount = 500, Currency = ''USD''\<rparr> sample_order
              = (None, snd (AddItem (env_now confirm_env) ''p2'' 1
                   \<lparr>Amount = 500, Currency = ''USD''\<rparr> sample_order))"
    by (simp add: AddItem_def sample_order_def)
  have m4: "RemoveItem (env_now confirm_env) ''p1'' sample_order
              = (None, snd (RemoveItem (env_now confirm_env) ''p1'' sample_order))"
    by (simp add: RemoveItem_def sample_order_def)
  have ok: "fst (CommandService_ConfirmOrder confirm_env ''o1'' sample_db) = None"
    unfolding CommandService_ConfirmOrder_def by (rule load_apply_save_ok
          [of confirm_env "''o1''" sample_db sample_order
             "Confirm (env_now confirm_env)",
           OF io f m1 n])
  have okc: "fst (CommandService_CancelOrder confirm_env ''o1'' ''changed mind'' sample_db) = None"
    unfolding CommandService_CancelOrder_def by (rule load_apply_save_ok
          [of confirm_env "''o1''" sample_db sample_order
             "Cancel (env_now confirm_env)",
           OF io f m2 n])
  have oka: "fst (CommandService_AddOrderItem confirm_env ''o1'' ''p2'' 1
          \<lparr>Amount = 500, Currency = ''USD''\<rparr> sample_db) = None"
    unfolding CommandService_AddOrderItem_def by (rule load_apply_save_ok
          [of confirm_env "''o1''" sample_db sample_order
             "AddItem (env_now confirm_env) ''p2'' 1 \<lparr>Amount = 500, Currency = ''USD''\<rparr>",
           OF io f m3 n])
  have okr: "fst (CommandService_RemoveOrderItem confirm_env ''o1'' ''p1'' sample_db) = None"
    unfolding CommandService_RemoveOrderItem_def by (rule load_apply_save_ok
          [of confirm_env "''o1''" sample_db sample_order
             "RemoveItem (env_now confirm_env) ''p1''",
           OF io f m4 n])
  note t = C10_event_store_holds_created_only
      [where env = sample_env and cmd = sample_cmd and db = empty_db and ord = sample_order
         and db' = sample_db]
  note t2 = C10_event_store_holds_created_only
      [where env = confirm_env and orderID = "''o1''" and db = sample_db
         and reason = "''changed mind''" and productID = "''p2''" and quantity = 1
         and price = "\<lparr>Amount = 500, Currency = ''USD''\<rparr>"
         and calls = "[(sample_env, CmdCreateOrder sample_cmd),
                       (confirm_env, CmdConfirmOrder ''o1'')]"]
  note t3 = C10_event_store_holds_created_only
      [where env = confirm_env and orderID = "''o1''" and db = sample_db
         and productID = "''p1''"]
  from create_sample t
  have 1: "events sample_db = events empty_db @ [created_row (env_now sample_env) sample_order]"
    by blast
  from t2 have 2: "events (snd (CommandService_ConfirmOrder confirm_env ''o1'' sample_db))
                    = events sample_db" by blast
  have 3: "events (run [(sample_env, CmdCreateOrder sample_cmd),
                (confirm_env, CmdConfirmOrder ''o1'')] empty_db) = [created_row 10 sample_order]"
    by (simp add: create_sample 2) (simp add: sample_db_def)
  from t2 3 have 4: "ev_event_type (created_row 10 sample_order) = ''OrderCreated'' \<and>
      ev_version (created_row 10 sample_order) = 1"
    by simp
  from ok t2
  have 5: "\<exists>row. outbox_events (snd (CommandService_ConfirmOrder confirm_env ''o1'' sample_db))
             = outbox_events sample_db @ [row] \<and> ob_EventType row = ''OrderConfirmed''"
    by blast
  then have 6: "map ob_EventType
      (outbox_events (snd (CommandService_ConfirmOrder confirm_env ''o1'' sample_db)))
      = [''OrderCreated'', ''OrderConfirmed'']"
    using ot by auto
  from okc t2
  have "\<exists>row. outbox_events
            (snd (CommandService_CancelOrder confirm_env ''o1'' ''changed mind'' sample_db))
             = outbox_events sample_db @ [row] \<and> ob_EventType row = ''OrderCancelled''"
    by blast
  then have 7: "map ob_EventType
     (outbox_events (snd (CommandService_CancelOrder confirm_env ''o1'' ''changed mind'' sample_db)))
     = [''OrderCreated'', ''OrderCancelled'']"
    using ot by auto
  from t2 have 8: "events (snd (CommandService_CancelOrder confirm_env ''o1'' ''changed mind'' sample_db))
     = events sample_db" by blast
  from oka t2
  have "\<exists>row. outbox_events (snd (CommandService_AddOrderItem confirm_env ''o1'' ''p2'' 1
          \<lparr>Amount = 500, Currency = ''USD''\<rparr> sample_db))
             = outbox_events sample_db @ [row] \<and> ob_EventType row = ''OrderItemAdded''"
    by blast
  then have 9: "map ob_EventType
     (outbox_events (snd (CommandService_AddOrderItem confirm_env ''o1'' ''p2'' 1
          \<lparr>Amount = 500, Currency = ''USD''\<rparr> sample_db)))
     = [''OrderCreated'', ''OrderItemAdded'']"
    using ot by auto
  from t2 have 10: "events (snd (CommandService_AddOrderItem confirm_env ''o1'' ''p2'' 1
          \<lparr>Amount = 500, Currency = ''USD''\<rparr> sample_db)) = events sample_db" by blast
  from okr t3
  have "\<exists>row. outbox_events (snd (CommandService_RemoveOrderItem confirm_env ''o1'' ''p1'' sample_db))
             = outbox_events sample_db @ [row] \<and> ob_EventType row = ''OrderItemRemoved''"
    by blast
  then have 11: "map ob_EventType
     (outbox_events (snd (CommandService_RemoveOrderItem confirm_env ''o1'' ''p1'' sample_db)))
     = [''OrderCreated'', ''OrderItemRemoved'']"
    using ot by auto
  from t3 have 12: "events (snd (CommandService_RemoveOrderItem confirm_env ''o1'' ''p1'' sample_db))
     = events sample_db" by blast
  show ?thesis
    by (intro conjI)
       (rule create_sample 1 ok 2 5 3 4 [THEN conjunct1] 4 [THEN conjunct2] 6 okc 8 7 oka 10 9
          okr 12 11)+
qed

text \<open>
  When the insert into the outbox fails after the order was updated, the call returns an
  error and the database is the one the update left: nothing undoes the update.
\<close>

lemma outbox_failure_keeps_update:
  assumes "FindByID (env_io env) orderID db = Inr ord"
      and "method ord = (None, ord')"
      and "Update (env_io env) ord' db = (None, db1)"
      and "fst (SaveEvent (env_io env) (env_outbox_uuid env) (env_now env) (mk_event ord') db1) \<noteq> None"
  shows "fst (load_apply_save env orderID method prefix mk_event db) \<noteq> None \<and>
         snd (load_apply_save env orderID method prefix mk_event db) = db1"
proof -
  obtain e2 db2 where
    o: "SaveEvent (env_io env) (env_outbox_uuid env) (env_now env) (mk_event ord') db1 = (e2, db2)"
    by (cases "SaveEvent (env_io env) (env_outbox_uuid env) (env_now env) (mk_event ord') db1")
  with assms(4) SaveEvent_result [OF o] obtain err where "e2 = Some err" "db2 = db1" by auto
  with assms(1-3) o show ?thesis by (simp add: load_apply_save_def)
qed

text \<open>
  C1. With the database refusing the insert into the outbox, \<open>CreateOrder\<close> on the empty
  database returns an error and leaves the outbox empty, but the order, its item and its
  event-store row are stored; and \<open>ConfirmOrder\<close> on the stored Draft order returns an
  error and leaves the outbox unchanged, but the order row, Draft before the call, is
  stored as confirmed. The writes of a command are not one unit of work.
\<close>

theorem C1_order_write_survives_outbox_failure:
  "CommandService_CreateOrder failing_create_env sample_cmd empty_db =
     (Inl ''failed to save event to outbox: failed to save event to outbox: connection refused'',
      sample_db\<lparr>outbox_events := []\<rparr>) \<and>
   orders empty_db ''o1'' = None \<and>
   map_option o_status (orders (sample_db\<lparr>outbox_events := []\<rparr>) ''o1'') = Some ''draft'' \<and>
   map_option o_status (orders sample_db ''o1'') = Some ''draft'' \<and>
   CommandService_ConfirmOrder failing_env ''o1'' sample_db =
     (Some ''failed to save event to outbox: failed to save event to outbox: connection refused'',
      sample_db\<lparr>orders := [''o1'' \<mapsto> confirmed_row]\<rparr>) \<and>
   map_option o_status (orders (sample_db\<lparr>orders := [''o1'' \<mapsto> confirmed_row]\<rparr>) ''o1'')
     = Some ''confirmed'' \<and>
   outbox_events (sample_db\<lparr>orders := [''o1'' \<mapsto> confirmed_row]\<rparr>) = outbox_events sample_db"
proof -
  have v: "CreateOrderCommand_Validate trim_spaces sample_cmd = None"
    by (simp add: CreateOrderCommand_Validate_def sample_cmd_def Address_Validate_def
          sample_address_def trim_spaces_def unicode_spaces_def OrderItemCommand_Validate_def
          Money_Validate_def)
  have a: "add_items 10 (cmd_Items sample_cmd)
             (NewOrder ''o1'' 10 10 (cmd_CustomerID sample_cmd) (cmd_ShippingAddress sample_cmd))
           = Inr sample_order"
    by (simp add: sample_cmd_def NewOrder_def AddItem_def recalculateTotal_def sample_order_def
          Money_zero_def)
  have s: "Save outbox_down sample_order empty_db =
             (None, sample_db\<lparr>events := [], outbox_events := []\<rparr>)"
    by (simp add: Save_def saveOrderItems_def Let_def sample_order_def empty_db_def sample_db_def
          OrderStatusDraft_def outbox_down_def)
  have e: "SaveEvents outbox_down (ID sample_order) [NewOrderCreatedEvent 10 sample_order] 0
             (sample_db\<lparr>events := [], outbox_events := []\<rparr>)
           = (None, sample_db\<lparr>outbox_events := []\<rparr>)"
    by (simp add: SaveEvents_def Let_def created_row_def sample_db_def Type_def OccurredAt_def
          NewOrderCreatedEvent_def outbox_down_def)
  have o1: "SaveEvent outbox_down uuid now ev db =
              (Some ''failed to save event to outbox: connection refused'', db)" for uuid now ev db
    by (simp add: SaveEvent_def outbox_down_def)
  have create: "CommandService_CreateOrder failing_create_env sample_cmd empty_db =
     (Inl ''failed to save event to outbox: failed to save event to outbox: connection refused'',
      sample_db\<lparr>outbox_events := []\<rparr>)"
    by (simp add: CommandService_CreateOrder_def failing_create_env_def sample_env_def
          v a s e o1 Let_def)
  have f: "FindByID outbox_down ''o1'' sample_db = Inr sample_order"
    by (simp add: FindByID_def findOrderItems_def sample_db_def sample_order_def
          OrderStatusDraft_def outbox_down_def)
  have c: "Confirm 50 sample_order =
             (None, sample_order\<lparr>Status := OrderStatusConfirmed, UpdatedAt := 50\<rparr>)"
    by (simp add: Confirm_def sample_order_def)
  have u: "Update outbox_down
             (sample_order\<lparr>Status := OrderStatusConfirmed, UpdatedAt := 50\<rparr>) sample_db
           = (None, sample_db\<lparr>orders := [''o1'' \<mapsto> confirmed_row]\<rparr>)"
    by (simp add: Update_def Save_def saveOrderItems_def Let_def sample_order_def sample_db_def
          outbox_down_def confirmed_row_def OrderStatusConfirmed_def)
  have confirm: "CommandService_ConfirmOrder failing_env ''o1'' sample_db =
     (Some ''failed to save event to outbox: failed to save event to outbox: connection refused'',
      sample_db\<lparr>orders := [''o1'' \<mapsto> confirmed_row]\<rparr>)"
    by (simp add: CommandService_ConfirmOrder_def load_apply_save_def failing_env_def
          confirm_env_def sample_env_def f c u o1)
  have rest: "orders empty_db ''o1'' = None"
    "map_option o_status (orders (sample_db\<lparr>outbox_events := []\<rparr>) ''o1'') = Some ''draft''"
    "map_option o_status (orders sample_db ''o1'') = Some ''draft''"
    "map_option o_status (orders (sample_db\<lparr>orders := [''o1'' \<mapsto> confirmed_row]\<rparr>) ''o1'')
       = Some ''confirmed''"
    "outbox_events (sample_db\<lparr>orders := [''o1'' \<mapsto> confirmed_row]\<rparr>) = outbox_events sample_db"
    by (simp_all add: empty_db_def sample_db_def confirmed_row_def)
  from create confirm rest show ?thesis by blast
qed

section \<open>The message that Publish hands to the producer\<close>

text \<open>
  C4, as the specification states it, fails: for the Created event of order "o1" the
  key of the message is empty, not the aggregate identity.
\<close>

theorem C4_partition_key_counterexample:
  "AggregateID sample_created = ''o1'' \<and>
   msg_Key (Publish_message sample_created) = [] \<and>
   msg_Key (Publish_message sample_created) \<noteq> AggregateID sample_created"
  by (simp add: Publish_message_def sample_created_def NewOrderCreatedEvent_def AggregateID_def
        sample_order_def)

text \<open>
  C4, amended. For every event, \<open>Publish\<close> succeeds exactly when the producer reports as
  delivered the message on topic "orders" with partition \<open>PartitionAny\<close>, an empty key,
  the event as value, and the headers "event-type" and "aggregate-id": the aggregate
  identity travels as a header, and the message has no partition key.
\<close>

theorem C4_message_carries_identity_as_header:
  "(Publish producer event = None \<longleftrightarrow>
      producer
        \<lparr>msg_Topic = ''orders'', msg_Partition = - 1, msg_Key = [], msg_Value = event,
         msg_Headers = [(''event-type'', Type event), (''aggregate-id'', AggregateID event)]\<rparr>
      = Delivered) \<and>
   msg_Key (Publish_message event) = [] \<and>
   msg_Partition (Publish_message event) = PartitionAny \<and>
   map_of (msg_Headers (Publish_message event)) ''aggregate-id'' = Some (AggregateID event)"
  by (simp add: Publish_def Publish_message_def PartitionAny_def split: ProduceResult.splits)

end
